theory Spec2Isabelle
  imports Complex_Main
begin

section \<open>Conventions\<close>

text \<open>
  The TypeScript sources are embedded as HOL functions.

  \<^item> A JavaScript \<open>number\<close> that holds a measurement (a percentage, a liquidity, a
    confidence, a slippage) is a \<open>real\<close>: the real number that the double denotes. The
    IEEE cases that a real number does not have (a division by zero giving Infinity or
    NaN) are written out where the source can reach them.
  \<^item> The slippage multipliers of the scanner and of the execution engine,
    \<open>Math.floor((1 - slippage) * 1000)\<close> and \<open>Math.floor((1 - maxSlippage) * 10000)\<close>,
    are computed in IEEE double arithmetic: each operation is the exact result rounded to
    the nearest double, ties to even (\<open>round_double\<close>). The other products
    (\<open>sizeMultiplier * 100\<close>, \<open>pool.fee * 1000000\<close>, the risk-adjusted profit bar) are
    taken over the real numbers; for the four size multipliers the floor is the same in
    double arithmetic. Where a double is compared with a constant, the comparison is the
    one of the real numbers.
  \<^item> A JavaScript \<open>number\<close> that only ever holds a sum of integer constants or a
    millisecond clock value is an \<open>int\<close>.
  \<^item> An amount kept as a decimal string and read with \<open>BigInt(...)\<close> is the \<open>int\<close>
    that the string denotes; \<open>parseFloat(s) / 1e18\<close> of such a string is that integer
    divided by \<open>10 ^ 18\<close>.
  \<^item> \<open>Pool.liquidity\<close> is read only through \<open>parseFloat(liquidity) || 0\<close>; the field
    of the model holds the value of that expression.
  \<^item> \<open>CONFIG.trading\<close> is passed as a parameter, and so is the clock: the reads of
    \<open>Date.now()\<close> inside one call are one instant \<open>now\<close>.
  \<^item> \<open>emit\<close> and \<open>console.log\<close> only notify observers and are left out.
\<close>

section \<open>Data model (types/index.ts)\<close>

record Token =
  t_address :: string
  t_symbol :: string
  t_name :: string
  t_decimals :: nat
  t_chainId :: nat

record Pool =
  p_id :: string
  p_protocol :: string
  p_tokenA :: Token
  p_tokenB :: Token
  p_reserve0 :: int
  p_reserve1 :: int
  p_fee :: real
  p_liquidity :: real
  p_chainId :: nat

record TradeStep =
  s_protocol :: string
  s_tokenIn :: Token
  s_tokenOut :: Token
  s_amountIn :: int
  s_amountOutMin :: int
  s_pool :: Pool
  s_route :: "string list"

record ArbitrageOpportunity =
  o_id :: string
  o_tokenA :: Token
  o_tokenB :: Token
  o_buyPool :: Pool
  o_sellPool :: Pool
  o_profitPercentage :: real
  o_profitAmount :: int
  o_potentialEarningsUSD :: real
  o_inputAmount :: int
  o_confidence :: real
  o_timestamp :: int
  o_gasEstimate :: int
  o_executionPath :: "TradeStep list"

record TradingConfig =
  minProfitThreshold :: real
  maxSlippage :: real
  maxPositionSize :: real
  tradingEnabled :: bool
  predictionConfidenceThreshold :: real

record AIModelPrediction =
  ai_confidence :: real
  ai_riskScore :: real
  ai_executionProbability :: real

section \<open>JavaScript primitives\<close>

text \<open>\<open>String.prototype.toLowerCase\<close> on the ASCII letters.\<close>

definition lower_char :: "char \<Rightarrow> char" where
  "lower_char c =
     (case map_of (zip ''ABCDEFGHIJKLMNOPQRSTUVWXYZ'' ''abcdefghijklmnopqrstuvwxyz'') c of
        None \<Rightarrow> c
      | Some d \<Rightarrow> d)"

definition toLowerCase :: "string \<Rightarrow> string" where
  "toLowerCase s = map lower_char s"

text \<open>\<open>String.prototype.includes\<close>.\<close>

fun starts_with :: "string \<Rightarrow> string \<Rightarrow> bool" where
  "starts_with s [] = True"
| "starts_with [] (c # cs) = False"
| "starts_with (d # ds) (c # cs) = (d = c \<and> starts_with ds cs)"

fun str_includes :: "string \<Rightarrow> string \<Rightarrow> bool" where
  "str_includes [] sub = (sub = [])"
| "str_includes (d # ds) sub = (starts_with (d # ds) sub \<or> str_includes ds sub)"

text \<open>Division of \<open>BigInt\<close>s truncates towards zero; the divisors used are never zero.\<close>

definition bigint_div :: "int \<Rightarrow> int \<Rightarrow> int" where
  "bigint_div a b = sgn a * sgn b * (\<bar>a\<bar> div \<bar>b\<bar>)"

text \<open>
  \<open>x / y > c\<close> for a positive constant \<open>c\<close>, as doubles compare: \<open>x / 0\<close> is
  Infinity for positive \<open>x\<close>, NaN for \<open>x = 0\<close> and -Infinity for negative \<open>x\<close>, and only
  Infinity exceeds \<open>c\<close>.
\<close>

definition quotient_exceeds :: "real \<Rightarrow> real \<Rightarrow> real \<Rightarrow> bool" where
  "quotient_exceeds x y c = (if y = 0 then 0 < x else c < x / y)"

subsection \<open>IEEE 754 double arithmetic\<close>

text \<open>Rounding to the nearest integer, ties to the even one.\<close>

definition rne :: "real \<Rightarrow> int" where
  "rne y =
     (let f = \<lfloor>y\<rfloor>; r = y - of_int f
      in if r < 1 / 2 then f else if 1 / 2 < r then f + 1 else if even f then f else f + 1)"

text \<open>
  The exponent of the binade of a non-negative \<open>x\<close>: the largest \<open>e\<close> from 1023 down
  with \<open>2 ^ e \<le> x\<close>, and -1022 for the subnormal numbers and zero.
\<close>

function binade_down :: "int \<Rightarrow> real \<Rightarrow> int" where
  "binade_down e x = (if e \<le> - 1022 \<or> 2 powi e \<le> x then e else binade_down (e - 1) x)"
  by pat_completeness auto
termination
  by (relation "measure (\<lambda>(e, x). nat (e + 1022))") auto

declare binade_down.simps [simp del]

definition binade :: "real \<Rightarrow> int" where
  "binade x = binade_down 1023 \<bar>x\<bar>"

text \<open>
  The double nearest to a real number, ties to even: doubles of the binade of \<open>x\<close> are
  the multiples of \<open>2 ^ (binade x - 52)\<close>. (Magnitudes of \<open>2 ^ 1024\<close> and more, which
  round to Infinity, do not occur in what follows.)
\<close>

definition round_double :: "real \<Rightarrow> real" where
  "round_double x =
     (let ulp = 2 powi (binade x - 52) in of_int (rne (x / ulp)) * ulp)"

text \<open>\<open>a - b\<close> and \<open>a * b\<close> on doubles.\<close>

definition js_sub :: "real \<Rightarrow> real \<Rightarrow> real" where
  "js_sub a b = round_double (a - b)"

definition js_mul :: "real \<Rightarrow> real \<Rightarrow> real" where
  "js_mul a b = round_double (a * b)"

section \<open>Risk Gate and Position Ledger (RiskManager)\<close>

datatype RiskLevel = LOW | MEDIUM | HIGH | CRITICAL

record RiskAssessment =
  ra_riskScore :: int
  ra_riskLevel :: RiskLevel
  ra_shouldExecute :: bool
  ra_reasons :: "string list"
  ra_adjustedPositionSize :: int
  ra_maxSlippage :: real

record RiskManager =
  dailyVolume :: int
  dailyTrades :: int
  activeTrades :: int
  lastTradeTime :: int
  dailyResetTime :: int
  blacklistedTokens :: "string set"
  blacklistedProtocols :: "string set"

text \<open>
  \<open>resetDailyLimits\<close>: the next UTC midnight after \<open>now\<close> (a UTC day is 86400000 ms)
  becomes the reset time, and the two daily counters restart.
\<close>

definition resetDailyLimits :: "int \<Rightarrow> RiskManager \<Rightarrow> RiskManager" where
  "resetDailyLimits now rm =
     rm\<lparr>dailyResetTime := (now div 86400000 + 1) * 86400000,
        dailyVolume := 0,
        dailyTrades := 0\<rparr>"

definition new_RiskManager :: "int \<Rightarrow> RiskManager" where
  "new_RiskManager now =
     resetDailyLimits now
       \<lparr>dailyVolume = 0, dailyTrades = 0, activeTrades = 0, lastTradeTime = 0,
        dailyResetTime = 0, blacklistedTokens = {}, blacklistedProtocols = {}\<rparr>"

definition stablecoins :: "string list" where
  "stablecoins = [''USDC'', ''USDT'', ''DAI'', ''BUSD'']"

definition majorTokens :: "string list" where
  "majorTokens = [''WETH'', ''WBTC'', ''WMATIC'', ''BNB'']"

definition trustedProtocols :: "string list" where
  "trustedProtocols = [''uniswap_v2'', ''uniswap_v3'', ''sushiswap'', ''pancakeswap'']"

definition assessTokenRisk :: "RiskManager \<Rightarrow> ArbitrageOpportunity \<Rightarrow> int \<times> string list" where
  "assessTokenRisk rm opp =
     (let (score, reasons) =
            (if toLowerCase (t_address (o_tokenA opp)) \<in> blacklistedTokens rm
                \<or> toLowerCase (t_address (o_tokenB opp)) \<in> blacklistedTokens rm
             then (100, [''Token is blacklisted''])
             else (0, []));
          isStablecoinPair =
            (t_symbol (o_tokenA opp) \<in> set stablecoins \<and> t_symbol (o_tokenB opp) \<in> set stablecoins);
          isMajorTokenPair =
            (t_symbol (o_tokenA opp) \<in> set majorTokens \<or> t_symbol (o_tokenB opp) \<in> set majorTokens)
      in if isStablecoinPair then (score - 5, reasons @ [''Stablecoin pair - reduced risk''])
         else if isMajorTokenPair
         then (score - 2, reasons @ [''Major token pair - slightly reduced risk''])
         else (score + 10, reasons @ [''Unknown token pair - increased risk'']))"

definition assessProtocolRisk :: "RiskManager \<Rightarrow> ArbitrageOpportunity \<Rightarrow> int \<times> string list" where
  "assessProtocolRisk rm opp =
     (let (s1, r1) =
            (if p_protocol (o_buyPool opp) \<in> blacklistedProtocols rm
                \<or> p_protocol (o_sellPool opp) \<in> blacklistedProtocols rm
             then (50, [''Protocol is blacklisted''])
             else (0, []));
          buyProtocolTrusted = (p_protocol (o_buyPool opp) \<in> set trustedProtocols);
          sellProtocolTrusted = (p_protocol (o_sellPool opp) \<in> set trustedProtocols);
          (s2, r2) =
            (if \<not> buyProtocolTrusted \<or> \<not> sellProtocolTrusted
             then (s1 + 15, r1 @ [''Using less established protocol''])
             else (s1, r1))
      in if p_protocol (o_buyPool opp) \<noteq> p_protocol (o_sellPool opp)
         then (s2 + 5, r2 @ [''Cross-protocol arbitrage - additional execution risk''])
         else (s2, r2))"

definition assessLiquidityRisk :: "ArbitrageOpportunity \<Rightarrow> int \<times> string list" where
  "assessLiquidityRisk opp =
     (let buyLiquidity = p_liquidity (o_buyPool opp);
          sellLiquidity = p_liquidity (o_sellPool opp);
          minLiquidity = min buyLiquidity sellLiquidity;
          positionSize = real_of_int (o_inputAmount opp) / 10 ^ 18;
          (s1, r1) =
            (if minLiquidity < 10000 then (30, [''Very low liquidity pools''])
             else if minLiquidity < 100000 then (15, [''Low liquidity pools''])
             else (0, []))
      in if quotient_exceeds positionSize minLiquidity 0.05
         then (s1 + 25, r1 @ [''High liquidity utilization - increased slippage risk''])
         else if quotient_exceeds positionSize minLiquidity 0.02
         then (s1 + 10, r1 @ [''Moderate liquidity utilization''])
         else (s1, r1))"

definition assessProfitRisk :: "ArbitrageOpportunity \<Rightarrow> int \<times> string list" where
  "assessProfitRisk opp =
     (let (s1, r1) =
            (if o_profitPercentage opp > 5
             then (20, [''Unusually high profit margin - possible stale data''])
             else if o_profitPercentage opp > 2
             then (5, [''High profit margin - verify data freshness''])
             else (0, []))
      in if o_profitPercentage opp < 0.1
         then (s1 + 25, r1 @ [''Very low profit margin - high execution risk''])
         else if o_profitPercentage opp < 0.2
         then (s1 + 10, r1 @ [''Low profit margin - moderate execution risk''])
         else (s1, r1))"

definition assessAIPredictionRisk :: "AIModelPrediction \<Rightarrow> int \<times> string list" where
  "assessAIPredictionRisk ai =
     (let (s1, r1) =
            (if ai_confidence ai < 0.5 then (30, [''Low AI confidence in opportunity''])
             else if ai_confidence ai < 0.7 then (15, [''Moderate AI confidence''])
             else (- 5, [''High AI confidence - reduced risk'']));
          (s2, r2) =
            (if ai_riskScore ai > 0.8 then (s1 + 25, r1 @ [''AI indicates high risk''])
             else if ai_riskScore ai > 0.6 then (s1 + 10, r1 @ [''AI indicates moderate risk''])
             else (s1, r1))
      in if ai_executionProbability ai < 0.5
         then (s2 + 20, r2 @ [''Low execution probability predicted''])
         else (s2, r2))"

definition assessPositionSizeRisk ::
  "TradingConfig \<Rightarrow> RiskManager \<Rightarrow> ArbitrageOpportunity \<Rightarrow> int \<times> string list" where
  "assessPositionSizeRisk cfg rm opp =
     (let positionSizeUSD = real_of_int (o_inputAmount opp) / 10 ^ 18;
          (s1, r1) =
            (if positionSizeUSD > maxPositionSize cfg * 0.5
             then (20, [''Large position size relative to limits''])
             else (0, []));
          newDailyVolume = dailyVolume rm + o_inputAmount opp;
          dailyVolumeUSD = real_of_int newDailyVolume / 10 ^ 18
      in if dailyVolumeUSD > maxPositionSize cfg * 10
         then (s1 + 40, r1 @ [''Would exceed daily volume limits''])
         else (s1, r1))"

definition assessMarketConditionsRisk ::
  "int \<Rightarrow> RiskManager \<Rightarrow> ArbitrageOpportunity \<Rightarrow> int \<times> string list" where
  "assessMarketConditionsRisk now rm opp =
     (let (s1, r1) =
            (if activeTrades rm \<ge> 3
             then (15, [''Multiple concurrent trades - increased risk''])
             else (0, []));
          timeSinceLastTrade = now - lastTradeTime rm;
          (s2, r2) =
            (if timeSinceLastTrade < 30000 \<and> lastTradeTime rm > 0
             then (s1 + 10, r1 @ [''Recent trade execution - cooldown period''])
             else (s1, r1));
          opportunityAge = now - o_timestamp opp
      in if opportunityAge > 60000
         then (s2 + 15, r2 @ [''Stale opportunity - data may be outdated''])
         else if opportunityAge > 30000
         then (s2 + 5, r2 @ [''Moderately aged opportunity''])
         else (s2, r2))"

definition shouldExecuteTrade ::
  "TradingConfig \<Rightarrow> RiskManager \<Rightarrow> int \<Rightarrow> ArbitrageOpportunity \<Rightarrow> bool" where
  "shouldExecuteTrade cfg rm riskScore opp =
     (if riskScore > 70 then False
      else if dailyTrades rm \<ge> 50 then False
      else if activeTrades rm \<ge> 3 then False
      else if o_profitPercentage opp
                < minProfitThreshold cfg * (1 + real_of_int riskScore / 100) then False
      else True)"

definition sizeMultiplier :: "int \<Rightarrow> real" where
  "sizeMultiplier riskScore =
     (if riskScore > 50 then 0.5
      else if riskScore > 30 then 0.7
      else if riskScore > 15 then 0.85
      else 1)"

definition calculateAdjustedPositionSize :: "ArbitrageOpportunity \<Rightarrow> int \<Rightarrow> int" where
  "calculateAdjustedPositionSize opp riskScore =
     bigint_div (o_inputAmount opp * \<lfloor>sizeMultiplier riskScore * 100\<rfloor>) 100"

definition calculateAdjustedSlippage :: "TradingConfig \<Rightarrow> int \<Rightarrow> real" where
  "calculateAdjustedSlippage cfg riskScore =
     (let baseSlippage =
            (if riskScore > 50 then maxSlippage cfg * 0.5
             else if riskScore > 30 then maxSlippage cfg * 0.7
             else maxSlippage cfg)
      in max baseSlippage 0.001)"

definition riskLevelOf :: "int \<Rightarrow> RiskLevel" where
  "riskLevelOf riskScore =
     (if riskScore \<le> 20 then LOW
      else if riskScore \<le> 40 then MEDIUM
      else if riskScore \<le> 70 then HIGH
      else CRITICAL)"

text \<open>
  \<open>assessRisk\<close> returns the assessment together with the ledger as the call leaves it:
  its first step may run \<open>resetDailyLimits\<close>.
\<close>

definition assessRisk ::
  "TradingConfig \<Rightarrow> int \<Rightarrow> RiskManager \<Rightarrow> ArbitrageOpportunity \<Rightarrow> AIModelPrediction option
     \<Rightarrow> RiskAssessment \<times> RiskManager" where
  "assessRisk cfg now rm0 opp aiPrediction =
     (let rm = (if now > dailyResetTime rm0 then resetDailyLimits now rm0 else rm0);
          tokenRisk = assessTokenRisk rm opp;
          protocolRisk = assessProtocolRisk rm opp;
          liquidityRisk = assessLiquidityRisk opp;
          profitRisk = assessProfitRisk opp;
          aiRisk = (case aiPrediction of None \<Rightarrow> (0, []) | Some ai \<Rightarrow> assessAIPredictionRisk ai);
          positionRisk = assessPositionSizeRisk cfg rm opp;
          marketRisk = assessMarketConditionsRisk now rm opp;
          riskScore = fst tokenRisk + fst protocolRisk + fst liquidityRisk + fst profitRisk
                        + fst aiRisk + fst positionRisk + fst marketRisk;
          reasons = snd tokenRisk @ snd protocolRisk @ snd liquidityRisk @ snd profitRisk
                        @ snd aiRisk @ snd positionRisk @ snd marketRisk
      in (\<lparr>ra_riskScore = riskScore,
           ra_riskLevel = riskLevelOf riskScore,
           ra_shouldExecute = shouldExecuteTrade cfg rm riskScore opp,
           ra_reasons = reasons,
           ra_adjustedPositionSize = calculateAdjustedPositionSize opp riskScore,
           ra_maxSlippage = calculateAdjustedSlippage cfg riskScore\<rparr>,
          rm))"

definition recordTradeStart :: "int \<Rightarrow> RiskManager \<Rightarrow> RiskManager" where
  "recordTradeStart now rm =
     rm\<lparr>activeTrades := activeTrades rm + 1,
        dailyTrades := dailyTrades rm + 1,
        lastTradeTime := now\<rparr>"

definition recordTradeEnd :: "int \<Rightarrow> bool \<Rightarrow> RiskManager \<Rightarrow> RiskManager" where
  "recordTradeEnd inputAmount success rm =
     (let rm1 = rm\<lparr>activeTrades := max 0 (activeTrades rm - 1)\<rparr>
      in if success then rm1\<lparr>dailyVolume := dailyVolume rm1 + inputAmount\<rparr> else rm1)"

definition addTokenToBlacklist :: "string \<Rightarrow> RiskManager \<Rightarrow> RiskManager" where
  "addTokenToBlacklist tokenAddress rm =
     rm\<lparr>blacklistedTokens := insert (toLowerCase tokenAddress) (blacklistedTokens rm)\<rparr>"

definition addProtocolToBlacklist :: "string \<Rightarrow> RiskManager \<Rightarrow> RiskManager" where
  "addProtocolToBlacklist protocolName rm =
     rm\<lparr>blacklistedProtocols := insert protocolName (blacklistedProtocols rm)\<rparr>"

definition removeTokenFromBlacklist :: "string \<Rightarrow> RiskManager \<Rightarrow> RiskManager" where
  "removeTokenFromBlacklist tokenAddress rm =
     rm\<lparr>blacklistedTokens := blacklistedTokens rm - {toLowerCase tokenAddress}\<rparr>"

definition removeProtocolFromBlacklist :: "string \<Rightarrow> RiskManager \<Rightarrow> RiskManager" where
  "removeProtocolFromBlacklist protocolName rm =
     rm\<lparr>blacklistedProtocols := blacklistedProtocols rm - {protocolName}\<rparr>"


section \<open>Failures and external collaborators\<close>

text \<open>
  A value thrown inside the execution engine. The source renders each of them as an
  \<open>Error\<close> message; the model keeps what the message is built from. \<open>Collaborator\<close> is an
  \<open>Error\<close> raised by an external call (venue client, provider, wallet, AI engine) with
  its message, \<open>NonErrorValue\<close> a thrown value that is not an \<open>Error\<close> (the source
  renders it as \<open>'Unknown error'\<close>).
\<close>

datatype validation_reason =
    ProtocolNotAvailable
  | ProfitBelowThreshold real real
  | ProfitDegraded real real
  | ValidationError thrown
and thrown =
    AnotherTradeExecuting
  | TradingDisabled
  | AIConfidenceTooLow real
  | ValidationFailed "validation_reason list"
  | WalletNotInitialized
  | InsufficientBalance int int
  | ProtocolNotFound string
  | TransactionFailedToConfirm string
  | TransactionFailedWithStatus string "int option"
  | DivisionByZero
  | TypeError
  | Collaborator string
  | NonErrorValue

text \<open>\<open>await\<close> of a call that may throw, and \<open>try { ... } catch (error) { ... }\<close>.\<close>

definition await :: "thrown + 'a \<Rightarrow> ('a \<Rightarrow> thrown + 'b) \<Rightarrow> thrown + 'b" where
  "await r k = (case r of Inl e \<Rightarrow> Inl e | Inr x \<Rightarrow> k x)"

definition try_catch :: "thrown + 'a \<Rightarrow> (thrown \<Rightarrow> thrown + 'a) \<Rightarrow> thrown + 'a" where
  "try_catch body handler = (case body of Inl e \<Rightarrow> handler e | Inr x \<Rightarrow> Inr x)"

record Receipt =
  r_status :: "int option"
  r_gasUsed :: int

text \<open>
  What the external collaborators answer during one call of the scanner or of the
  execution engine. Venue clients are addressed by protocol name, as
  \<open>ProtocolManager.getProtocol\<close> resolves them; trade submission and confirmation are
  indexed by the position of the leg in the execution path. \<open>w_balance\<close> is the
  balance read before the legs, \<open>w_balanceAfter\<close> the one read after them.
  \<open>w_startTime\<close> and \<open>w_endTime\<close> are the clock reads of \<open>executeOpportunity\<close>
  (its \<open>startTime\<close>, and the read in its \<open>catch\<close> handler); \<open>w_tradesStartTime\<close>
  and \<open>w_tradesEndTime\<close> are those of \<open>executeTrades\<close> (its own \<open>startTime\<close>, and
  the read when it builds its result).
\<close>

record World =
  w_hasProtocol :: "string \<Rightarrow> nat \<Rightarrow> bool"
  w_getQuote :: "string \<Rightarrow> Token \<Rightarrow> Token \<Rightarrow> int \<Rightarrow> Pool \<Rightarrow> thrown + int"
  w_estimateGas :: "string \<Rightarrow> TradeStep \<Rightarrow> thrown + int"
  w_getPrice :: "string \<Rightarrow> real option"
  w_predictOpportunity :: "thrown + AIModelPrediction"
  w_getAddress :: "thrown + string"
  w_balance :: "string \<Rightarrow> string \<Rightarrow> thrown + int"
  w_balanceAfter :: "string \<Rightarrow> string \<Rightarrow> thrown + int"
  w_getNetwork :: "thrown + nat"
  w_allowance :: "string \<Rightarrow> string \<Rightarrow> thrown + int"
  w_approve :: "string \<Rightarrow> thrown + unit"
  w_executeTrade :: "nat \<Rightarrow> TradeStep \<Rightarrow> thrown + string"
  w_waitForTransaction :: "nat \<Rightarrow> string \<Rightarrow> thrown + Receipt option"
  w_startTime :: int
  w_endTime :: int
  w_tradesStartTime :: int
  w_tradesEndTime :: int

text \<open>\<open>BigInt.prototype.toString\<close> of a non-negative value.\<close>

definition digit :: "nat \<Rightarrow> char" where
  "digit n = ''0123456789'' ! n"

function toString_nat :: "nat \<Rightarrow> string" where
  "toString_nat n = (if n < 10 then [digit n] else toString_nat (n div 10) @ [digit (n mod 10)])"
  by pat_completeness auto
termination
  by (relation "measure id") auto

declare toString_nat.simps [simp del]

text \<open>\<open>Number(profit * 10000n / BigInt(amount)) / 100\<close>; the division throws on a zero divisor.\<close>

definition profitPercent :: "int \<Rightarrow> int \<Rightarrow> thrown + real" where
  "profitPercent profit amount =
     (if amount = 0 then Inl DivisionByZero
      else Inr (real_of_int (bigint_div (profit * 10000) amount) / 100))"

section \<open>Venue Client (UniswapV3Protocol.getQuote)\<close>

record V3Node =
  v3_quoterContract :: "thrown + unit"
  v3_quoteExactInputSingle :: "string \<Rightarrow> string \<Rightarrow> int \<Rightarrow> int \<Rightarrow> int \<Rightarrow> thrown + nat"

definition UniswapV3Protocol_getQuote ::
  "V3Node \<Rightarrow> Token \<Rightarrow> Token \<Rightarrow> int \<Rightarrow> Pool \<Rightarrow> thrown + string" where
  "UniswapV3Protocol_getQuote node tokenIn tokenOut amountIn pool =
     try_catch
       (await (v3_quoterContract node) (\<lambda>quoter.
          let fee = \<lfloor>p_fee pool * 1000000 + 1 / 2\<rfloor>
          in await (v3_quoteExactInputSingle node (t_address tokenIn) (t_address tokenOut)
                      fee amountIn 0) (\<lambda>amountOut.
               Inr (toString_nat amountOut))))
       (\<lambda>error. Inr ''0'')"

section \<open>Opportunity Scanner (ArbitrageDetector)\<close>

definition calculateMinAmount :: "int \<Rightarrow> real \<Rightarrow> int" where
  "calculateMinAmount amount slippage =
     (let slippageMultiplier = js_sub 1 slippage
      in bigint_div (amount * \<lfloor>js_mul slippageMultiplier 1000\<rfloor>) 1000)"

definition calculateConfidence :: "Pool \<Rightarrow> Pool \<Rightarrow> real \<Rightarrow> real" where
  "calculateConfidence buyPool sellPool profitPercentage =
     (let buyLiquidity = p_liquidity buyPool;
          sellLiquidity = p_liquidity sellPool;
          avgLiquidity = (buyLiquidity + sellLiquidity) / 2;
          c1 = (if avgLiquidity > 1000000 then 0.5 + 0.2
                else if avgLiquidity > 100000 then 0.5 + 0.1
                else 0.5);
          c2 = (if profitPercentage > 2 then c1 + 0.15
                else if profitPercentage > 1 then c1 + 0.1
                else if profitPercentage > 0.5 then c1 + 0.05
                else c1);
          c3 = (if p_protocol buyPool \<noteq> p_protocol sellPool then c2 - 0.1 else c2)
      in min (max c3 0) 1)"

definition estimateEarningsInUSD :: "World \<Rightarrow> Token \<Rightarrow> int \<Rightarrow> real" where
  "estimateEarningsInUSD w token profitAmount =
     (case w_getPrice w (t_address token) of
        None \<Rightarrow> 0
      | Some price \<Rightarrow> real_of_int profitAmount / 10 ^ t_decimals token * price)"

text \<open>
  \<open>calculateArbitrage\<close>: \<open>None\<close> is the source's \<open>null\<close>. The whole body is inside
  \<open>try/catch\<close>, whose handler returns \<open>null\<close>.
\<close>

definition calculateArbitrage ::
  "TradingConfig \<Rightarrow> int \<Rightarrow> World \<Rightarrow> Token \<Rightarrow> Token \<Rightarrow> Pool \<Rightarrow> Pool
     \<Rightarrow> ArbitrageOpportunity option" where
  "calculateArbitrage cfg now w tokenA tokenB poolA poolB =
     (let testAmount = 10 ^ t_decimals tokenA;
          protocolA = p_protocol poolA;
          protocolB = p_protocol poolB
      in if \<not> w_hasProtocol w protocolA (t_chainId tokenA)
            \<or> \<not> w_hasProtocol w protocolB (t_chainId tokenA)
         then None
         else
           (case
              await (w_getQuote w protocolA tokenA tokenB testAmount poolA) (\<lambda>quoteA_to_B.
              await (w_getQuote w protocolB tokenB tokenA quoteA_to_B poolB) (\<lambda>quoteB_back.
              let profit1 = quoteB_back - testAmount in
              await (profitPercent profit1 testAmount) (\<lambda>profitPercent1.
              await (w_getQuote w protocolB tokenA tokenB testAmount poolB) (\<lambda>quoteB_to_A.
              await (w_getQuote w protocolA tokenB tokenA quoteB_to_A poolA) (\<lambda>quoteA_back.
              let profit2 = quoteA_back - testAmount in
              await (profitPercent profit2 testAmount) (\<lambda>profitPercent2.
              let chosen =
                    (if profitPercent1 > profitPercent2 \<and> profitPercent1 > 0
                     then Some (poolA, poolB, profitPercent1, profit1)
                     else if profitPercent2 > 0
                     then Some (poolB, poolA, profitPercent2, profit2)
                     else None)
              in case chosen of
                   None \<Rightarrow> Inr None
                 | Some (buyPool, sellPool, profitPercentage, profitAmount) \<Rightarrow>
                     await (w_estimateGas w protocolA
                              \<lparr>s_protocol = p_protocol buyPool, s_tokenIn = tokenA,
                               s_tokenOut = tokenB, s_amountIn = testAmount, s_amountOutMin = 0,
                               s_pool = buyPool,
                               s_route = [t_address tokenA, t_address tokenB]\<rparr>) (\<lambda>gasEstimateBuy.
                     await (w_estimateGas w protocolB
                              \<lparr>s_protocol = p_protocol sellPool, s_tokenIn = tokenB,
                               s_tokenOut = tokenA, s_amountIn = quoteA_to_B, s_amountOutMin = 0,
                               s_pool = sellPool,
                               s_route = [t_address tokenB, t_address tokenA]\<rparr>) (\<lambda>gasEstimateSell.
                     Inr (Some
                       \<lparr>o_id = t_symbol tokenA @ ''_'' @ t_symbol tokenB @ ''_''
                                 @ toString_nat (nat now),
                        o_tokenA = tokenA,
                        o_tokenB = tokenB,
                        o_buyPool = buyPool,
                        o_sellPool = sellPool,
                        o_profitPercentage = profitPercentage,
                        o_profitAmount = profitAmount,
                        o_potentialEarningsUSD = estimateEarningsInUSD w tokenA profitAmount,
                        o_inputAmount = testAmount,
                        o_confidence = calculateConfidence buyPool sellPool profitPercentage,
                        o_timestamp = now,
                        o_gasEstimate = gasEstimateBuy + gasEstimateSell,
                        o_executionPath =
                          [\<lparr>s_protocol = p_protocol buyPool, s_tokenIn = tokenA,
                            s_tokenOut = tokenB, s_amountIn = testAmount,
                            s_amountOutMin = calculateMinAmount quoteA_to_B (maxSlippage cfg),
                            s_pool = buyPool,
                            s_route = [t_address tokenA, t_address tokenB]\<rparr>,
                           \<lparr>s_protocol = p_protocol sellPool, s_tokenIn = tokenB,
                            s_tokenOut = tokenA, s_amountIn = quoteA_to_B,
                            s_amountOutMin = calculateMinAmount quoteB_back (maxSlippage cfg),
                            s_pool = sellPool,
                            s_route = [t_address tokenB, t_address tokenA]\<rparr>]\<rparr>)))))))))
            of Inl error \<Rightarrow> None
             | Inr result \<Rightarrow> result))"


section \<open>Execution Orchestrator (TradingExecutionEngine)\<close>

text \<open>
  \<open>er_error\<close> holds the thrown value whose message the source stores. \<open>walletReady\<close>
  says that \<open>initialize\<close> has set both \<open>secureWallet\<close> and \<open>provider\<close>.
\<close>

record ExecutionResult =
  er_success :: bool
  er_transactionHashes :: "string list"
  er_actualProfit :: int
  er_gasUsed :: int
  er_executionTime :: int
  er_error :: "thrown option"

record TradeValidation =
  v_isValid :: bool
  v_reasons :: "validation_reason list"
  v_adjustedOpportunity :: "ArbitrageOpportunity option"

record TradingExecutionEngine =
  isExecuting :: bool
  executionHistory :: "ExecutionResult list"
  walletReady :: bool

definition ZeroAddress :: string where
  "ZeroAddress = ''0x0000000000000000000000000000000000000000''"

definition calculateSlippageProtectedAmount :: "int \<Rightarrow> real \<Rightarrow> int" where
  "calculateSlippageProtectedAmount amount slippage =
     (let slippageMultiplier = js_sub 1 slippage
      in bigint_div (amount * \<lfloor>js_mul slippageMultiplier 10000\<rfloor>) 10000)"

text \<open>The \<open>map((step, index) => ...)\<close> that rebuilds the legs from the fresh quotes.\<close>

fun requote_steps :: "TradingConfig \<Rightarrow> int \<Rightarrow> int \<Rightarrow> int \<Rightarrow> nat \<Rightarrow> TradeStep list \<Rightarrow> TradeStep list" where
  "requote_steps cfg inputAmount currentBuyQuote currentSellQuote index [] = []"
| "requote_steps cfg inputAmount currentBuyQuote currentSellQuote index (step # steps) =
     step\<lparr>s_amountIn := (if index = 0 then inputAmount else currentBuyQuote),
          s_amountOutMin :=
            calculateSlippageProtectedAmount
              (if index = 0 then currentBuyQuote else currentSellQuote) (maxSlippage cfg)\<rparr>
       # requote_steps cfg inputAmount currentBuyQuote currentSellQuote (Suc index) steps"

definition validateOpportunity ::
  "TradingConfig \<Rightarrow> int \<Rightarrow> World \<Rightarrow> ArbitrageOpportunity \<Rightarrow> TradeValidation" where
  "validateOpportunity cfg now w opp =
     (if \<not> w_hasProtocol w (p_protocol (o_buyPool opp)) (t_chainId (o_tokenA opp))
         \<or> \<not> w_hasProtocol w (p_protocol (o_sellPool opp)) (t_chainId (o_tokenA opp))
      then \<lparr>v_isValid = False, v_reasons = [ProtocolNotAvailable], v_adjustedOpportunity = None\<rparr>
      else
        (case
           await (w_getQuote w (p_protocol (o_buyPool opp)) (o_tokenA opp) (o_tokenB opp)
                    (o_inputAmount opp) (o_buyPool opp)) (\<lambda>currentBuyQuote.
           await (w_getQuote w (p_protocol (o_sellPool opp)) (o_tokenB opp) (o_tokenA opp)
                    currentBuyQuote (o_sellPool opp)) (\<lambda>currentSellQuote.
           let currentProfit = currentSellQuote - o_inputAmount opp in
           await (profitPercent currentProfit (o_inputAmount opp)) (\<lambda>currentProfitPercent.
           let r1 = (if currentProfitPercent < minProfitThreshold cfg
                     then [ProfitBelowThreshold currentProfitPercent (minProfitThreshold cfg)]
                     else []);
               reasons =
                 (if quotient_exceeds (o_profitPercentage opp - currentProfitPercent)
                       (o_profitPercentage opp) 0.5
                  then r1 @ [ProfitDegraded (o_profitPercentage opp) currentProfitPercent]
                  else r1);
               adjustedOpportunity =
                 (if reasons = []
                  then Some (opp\<lparr>o_profitPercentage := currentProfitPercent,
                                 o_profitAmount := currentProfit,
                                 o_timestamp := now,
                                 o_executionPath :=
                                   requote_steps cfg (o_inputAmount opp) currentBuyQuote
                                     currentSellQuote 0 (o_executionPath opp)\<rparr>)
                  else None)
           in Inr \<lparr>v_isValid = (reasons = []), v_reasons = reasons,
                   v_adjustedOpportunity = adjustedOpportunity\<rparr>)))
         of Inl error \<Rightarrow>
              \<lparr>v_isValid = False, v_reasons = [ValidationError error],
               v_adjustedOpportunity = None\<rparr>
          | Inr validation \<Rightarrow> validation))"

definition ensureApproval ::
  "World \<Rightarrow> TradingExecutionEngine \<Rightarrow> string \<Rightarrow> string \<Rightarrow> int \<Rightarrow> thrown + unit" where
  "ensureApproval w eng tokenAddress protocolName amount =
     (if \<not> walletReady eng then Inr ()
      else
        await (w_getNetwork w) (\<lambda>chainId.
        if \<not> w_hasProtocol w protocolName chainId then Inl (ProtocolNotFound protocolName)
        else
          await (w_getAddress w) (\<lambda>walletAddress.
          await (w_allowance w tokenAddress walletAddress) (\<lambda>currentAllowance.
          if currentAllowance < amount then w_approve w tokenAddress else Inr ()))))"

definition checkBalancesAndApprovals ::
  "World \<Rightarrow> TradingExecutionEngine \<Rightarrow> ArbitrageOpportunity \<Rightarrow> thrown + unit" where
  "checkBalancesAndApprovals w eng opp =
     (if \<not> walletReady eng then Inl WalletNotInitialized
      else
        let tokenA = o_tokenA opp;
            inputAmount = o_inputAmount opp
        in await (w_getAddress w) (\<lambda>walletAddress.
           await (w_balance w (t_address tokenA) walletAddress) (\<lambda>balance.
           if balance < inputAmount then Inl (InsufficientBalance balance inputAmount)
           else
             await (if t_address tokenA \<noteq> ZeroAddress
                    then ensureApproval w eng (t_address tokenA) (p_protocol (o_buyPool opp))
                           inputAmount
                    else Inr ()) (\<lambda>_.
             case o_executionPath opp of
               [] \<Rightarrow> Inl TypeError
             | step0 # _ \<Rightarrow>
                 let intermediateAmount = s_amountOutMin step0
                 in if t_address (o_tokenB opp) \<noteq> ZeroAddress
                    then ensureApproval w eng (t_address (o_tokenB opp))
                           (p_protocol (o_sellPool opp)) intermediateAmount
                    else Inr ()))))"

text \<open>
  The loop of \<open>executeTrades\<close> over the legs from position \<open>i\<close> on. It returns the value
  thrown inside the loop (if any), the variables \<open>transactionHashes\<close> and
  \<open>totalGasUsed\<close> as the loop leaves them, and the positions of the legs that were handed
  to \<open>protocol.executeTrade\<close>, in order.
\<close>

fun executeSteps ::
  "World \<Rightarrow> nat \<Rightarrow> nat \<Rightarrow> TradeStep list \<Rightarrow> string list \<Rightarrow> int
     \<Rightarrow> thrown option \<times> string list \<times> int \<times> nat list" where
  "executeSteps w chainId i [] transactionHashes totalGasUsed =
     (None, transactionHashes, totalGasUsed, [])"
| "executeSteps w chainId i (step # steps) transactionHashes totalGasUsed =
     (if \<not> w_hasProtocol w (s_protocol step) chainId
      then (Some (ProtocolNotFound (s_protocol step)), transactionHashes, totalGasUsed, [])
      else
        (case w_executeTrade w i step of
           Inl error \<Rightarrow> (Some error, transactionHashes, totalGasUsed, [i])
         | Inr txHash \<Rightarrow>
             (case w_waitForTransaction w i txHash of
                Inl error \<Rightarrow> (Some error, transactionHashes, totalGasUsed, [i])
              | Inr None \<Rightarrow>
                  (Some (TransactionFailedToConfirm txHash), transactionHashes, totalGasUsed, [i])
              | Inr (Some receipt) \<Rightarrow>
                  if r_status receipt \<noteq> Some 1
                  then (Some (TransactionFailedWithStatus txHash (r_status receipt)),
                        transactionHashes, totalGasUsed, [i])
                  else
                    (case executeSteps w chainId (Suc i) steps (transactionHashes @ [txHash])
                            (totalGasUsed + r_gasUsed receipt) of
                       (thrown, hashes, gas, submitted) \<Rightarrow> (thrown, hashes, gas, i # submitted)))))"

text \<open>
  \<open>executeTrades\<close> returns what the caller receives (a thrown value or an
  \<open>ExecutionResult\<close>) and the positions of the legs submitted.
\<close>

definition executeTrades ::
  "World \<Rightarrow> TradingExecutionEngine \<Rightarrow> ArbitrageOpportunity
     \<Rightarrow> (thrown + ExecutionResult) \<times> nat list" where
  "executeTrades w eng opp =
     (if \<not> walletReady eng then (Inl WalletNotInitialized, [])
      else
        (case w_getAddress w of
           Inl error \<Rightarrow>
             (Inr \<lparr>er_success = False, er_transactionHashes = [], er_actualProfit = 0,
                   er_gasUsed = 0, er_executionTime = w_tradesEndTime w - w_tradesStartTime w,
                   er_error = Some error\<rparr>, [])
         | Inr walletAddress \<Rightarrow>
             (case executeSteps w (t_chainId (o_tokenA opp)) 0 (o_executionPath opp) [] 0 of
                (Some error, transactionHashes, totalGasUsed, submitted) \<Rightarrow>
                  (Inr \<lparr>er_success = False, er_transactionHashes = transactionHashes,
                        er_actualProfit = 0, er_gasUsed = totalGasUsed,
                        er_executionTime = w_tradesEndTime w - w_tradesStartTime w,
                        er_error = Some error\<rparr>, submitted)
              | (None, transactionHashes, totalGasUsed, submitted) \<Rightarrow>
                  (case w_balanceAfter w (t_address (o_tokenA opp)) walletAddress of
                     Inl error \<Rightarrow>
                       (Inr \<lparr>er_success = False, er_transactionHashes = transactionHashes,
                             er_actualProfit = 0, er_gasUsed = totalGasUsed,
                             er_executionTime = w_tradesEndTime w - w_tradesStartTime w,
                             er_error = Some error\<rparr>, submitted)
                   | Inr finalBalance \<Rightarrow>
                       (Inr \<lparr>er_success = True, er_transactionHashes = transactionHashes,
                             er_actualProfit = finalBalance - o_inputAmount opp,
                             er_gasUsed = totalGasUsed,
                             er_executionTime = w_tradesEndTime w - w_tradesStartTime w,
                             er_error = None\<rparr>, submitted)))))"

text \<open>
  The statements inside the \<open>try\<close> block of \<open>executeOpportunity\<close>: what the block
  yields (a thrown value, or the \<open>executionResult\<close> it returns) and the positions of the
  legs submitted.
\<close>

definition executeOpportunity_try ::
  "TradingConfig \<Rightarrow> int \<Rightarrow> World \<Rightarrow> TradingExecutionEngine \<Rightarrow> ArbitrageOpportunity
     \<Rightarrow> (thrown + ExecutionResult) \<times> nat list" where
  "executeOpportunity_try cfg now w eng opp =
     (case w_predictOpportunity w of
        Inl error \<Rightarrow> (Inl error, [])
      | Inr aiPrediction \<Rightarrow>
          if ai_confidence aiPrediction < predictionConfidenceThreshold cfg
          then (Inl (AIConfidenceTooLow (ai_confidence aiPrediction)), [])
          else
            let validation = validateOpportunity cfg now w opp
            in if \<not> v_isValid validation
               then (Inl (ValidationFailed (v_reasons validation)), [])
               else
                 let validatedOpportunity =
                       (case v_adjustedOpportunity validation of
                          Some adjusted \<Rightarrow> adjusted
                        | None \<Rightarrow> opp)
                 in case checkBalancesAndApprovals w eng validatedOpportunity of
                      Inl error \<Rightarrow> (Inl error, [])
                    | Inr _ \<Rightarrow> executeTrades w eng validatedOpportunity)"

text \<open>
  \<open>executeOpportunity\<close> returns what the caller receives, the engine as the call leaves
  it, and the positions of the legs submitted. The two guards throw before the \<open>try\<close>
  block is entered; the \<open>catch\<close> handler builds \<open>failedResult\<close>; both paths record the
  result, and \<open>finally\<close> clears \<open>isExecuting\<close>.
\<close>

definition executeOpportunity ::
  "TradingConfig \<Rightarrow> int \<Rightarrow> World \<Rightarrow> TradingExecutionEngine \<Rightarrow> ArbitrageOpportunity
     \<Rightarrow> (thrown + ExecutionResult) \<times> TradingExecutionEngine \<times> nat list" where
  "executeOpportunity cfg now w eng opp =
     (if isExecuting eng then (Inl AnotherTradeExecuting, eng, [])
      else if \<not> tradingEnabled cfg then (Inl TradingDisabled, eng, [])
      else
        let (body, submitted) = executeOpportunity_try cfg now w (eng\<lparr>isExecuting := True\<rparr>) opp;
            result =
              (case body of
                 Inr executionResult \<Rightarrow> executionResult
               | Inl error \<Rightarrow>
                   \<lparr>er_success = False, er_transactionHashes = [], er_actualProfit = 0,
                    er_gasUsed = 0, er_executionTime = w_endTime w - w_startTime w,
                    er_error = Some error\<rparr>)
        in (Inr result,
            eng\<lparr>executionHistory := executionHistory eng @ [result], isExecuting := False\<rparr>,
            submitted))"

section \<open>Notions used to state the properties\<close>

text \<open>A reason mentions the threshold when it contains the word, in any letter case.\<close>

definition mentions_threshold :: "string \<Rightarrow> bool" where
  "mentions_threshold r = str_includes (toLowerCase r) ''threshold''"

text \<open>The ledger that the scoring steps of \<open>assessRisk\<close> read: after the reset check.\<close>

definition ledger_seen :: "int \<Rightarrow> RiskManager \<Rightarrow> RiskManager" where
  "ledger_seen now rm = (if now > dailyResetTime rm then resetDailyLimits now rm else rm)"

abbreviation riskScoreOf ::
  "TradingConfig \<Rightarrow> int \<Rightarrow> RiskManager \<Rightarrow> ArbitrageOpportunity \<Rightarrow> AIModelPrediction option \<Rightarrow> int" where
  "riskScoreOf cfg now rm opp ai \<equiv> ra_riskScore (fst (assessRisk cfg now rm opp ai))"

text \<open>\<open>Math.floor((1 - slippage) * 1000)\<close>, as \<open>calculateMinAmount\<close> evaluates it.\<close>

abbreviation slippage_thousandths :: "real \<Rightarrow> int" where
  "slippage_thousandths slippage \<equiv> \<lfloor>js_mul (js_sub 1 slippage) 1000\<rfloor>"

text \<open>The same opportunity with other liquidity figures for its two pools.\<close>

definition with_liquidity :: "real \<Rightarrow> real \<Rightarrow> ArbitrageOpportunity \<Rightarrow> ArbitrageOpportunity" where
  "with_liquidity b s opp =
     opp\<lparr>o_buyPool := (o_buyPool opp)\<lparr>p_liquidity := b\<rparr>,
         o_sellPool := (o_sellPool opp)\<lparr>p_liquidity := s\<rparr>\<rparr>"

text \<open>
  Leg \<open>i\<close> was submitted and its confirmation came back with status 1 (success).
\<close>

definition confirmedSuccess :: "World \<Rightarrow> nat \<Rightarrow> TradeStep \<Rightarrow> bool" where
  "confirmedSuccess w i step =
     (case w_executeTrade w i step of
        Inl error \<Rightarrow> False
      | Inr txHash \<Rightarrow>
          (case w_waitForTransaction w i txHash of
             Inl error \<Rightarrow> False
           | Inr None \<Rightarrow> False
           | Inr (Some receipt) \<Rightarrow> r_status receipt = Some 1))"

section \<open>Example inputs\<close>

definition usdc :: Token where
  "usdc = \<lparr>t_address = ''0xA0b86991c6218b36c1d19D4a2e9Eb0cE3606eB48'', t_symbol = ''USDC'',
            t_name = ''USD Coin'', t_decimals = 6, t_chainId = 1\<rparr>"

definition usdt :: Token where
  "usdt = \<lparr>t_address = ''0xdAC17F958D2ee523a2206206994597C13D831ec7'', t_symbol = ''USDT'',
            t_name = ''Tether USD'', t_decimals = 6, t_chainId = 1\<rparr>"

definition deep_pool :: "string \<Rightarrow> string \<Rightarrow> Pool" where
  "deep_pool pid proto =
     \<lparr>p_id = pid, p_protocol = proto, p_tokenA = usdc, p_tokenB = usdt,
      p_reserve0 = 0, p_reserve1 = 0, p_fee = 0.003, p_liquidity = 5000000, p_chainId = 1\<rparr>"

definition stable_opp :: "real \<Rightarrow> ArbitrageOpportunity" where
  "stable_opp pct =
     \<lparr>o_id = ''USDC_USDT_1000'', o_tokenA = usdc, o_tokenB = usdt,
      o_buyPool = deep_pool ''0xpool1'' ''uniswap_v2'',
      o_sellPool = deep_pool ''0xpool2'' ''uniswap_v2'',
      o_profitPercentage = pct, o_profitAmount = 5000, o_potentialEarningsUSD = 0,
      o_inputAmount = 1000000, o_confidence = 0.7, o_timestamp = 1000,
      o_gasEstimate = 300000, o_executionPath = []\<rparr>"

definition cfg_of :: "real \<Rightarrow> real \<Rightarrow> bool \<Rightarrow> TradingConfig" where
  "cfg_of thr slip en =
     \<lparr>minProfitThreshold = thr, maxSlippage = slip, maxPositionSize = 1000,
      tradingEnabled = en, predictionConfidenceThreshold = 0.75\<rparr>"

definition confident_ai :: AIModelPrediction where
  "confident_ai = \<lparr>ai_confidence = 0.9, ai_riskScore = 0.1, ai_executionProbability = 0.9\<rparr>"

definition busy_ledger :: RiskManager where
  "busy_ledger =
     \<lparr>dailyVolume = 5000000, dailyTrades = 7, activeTrades = 1, lastTradeTime = 86000000,
      dailyResetTime = 86400000, blacklistedTokens = {}, blacklistedProtocols = {}\<rparr>"


definition sushi_pool :: Pool where
  "sushi_pool = deep_pool ''0xpool2'' ''sushiswap''"

definition uni_pool :: Pool where
  "uni_pool = deep_pool ''0xpool1'' ''uniswap_v2''"

definition two_leg_opp :: ArbitrageOpportunity where
  "two_leg_opp =
     \<lparr>o_id = ''USDC_USDT_1000'', o_tokenA = usdc, o_tokenB = usdt,
      o_buyPool = uni_pool, o_sellPool = sushi_pool,
      o_profitPercentage = 1, o_profitAmount = 10000, o_potentialEarningsUSD = 0.01,
      o_inputAmount = 1000000, o_confidence = 0.65, o_timestamp = 1000,
      o_gasEstimate = 300000,
      o_executionPath =
        [\<lparr>s_protocol = ''uniswap_v2'', s_tokenIn = usdc, s_tokenOut = usdt,
          s_amountIn = 1000000, s_amountOutMin = 989800, s_pool = uni_pool,
          s_route = [t_address usdc, t_address usdt]\<rparr>,
         \<lparr>s_protocol = ''sushiswap'', s_tokenIn = usdt, s_tokenOut = usdc,
          s_amountIn = 1010000, s_amountOutMin = 989800, s_pool = sushi_pool,
          s_route = [t_address usdt, t_address usdc]\<rparr>]\<rparr>"

text \<open>
  A world in which the first venue pays 1% more USDT per USDC, every call answers, the
  first leg confirms with status 1 and the second with status 0.
\<close>

definition second_leg_fails :: World where
  "second_leg_fails =
     \<lparr>w_hasProtocol = (\<lambda>protocolName chainId. True),
      w_getQuote = (\<lambda>protocolName tokenIn tokenOut amountIn pool.
         Inr (if protocolName = ''uniswap_v2'' \<and> t_symbol tokenIn = ''USDC''
              then amountIn * 101 div 100 else amountIn)),
      w_estimateGas = (\<lambda>protocolName step. Inr 150000),
      w_getPrice = (\<lambda>tokenAddress. Some 1),
      w_predictOpportunity = Inr confident_ai,
      w_getAddress = Inr ''0xwallet'',
      w_balance = (\<lambda>tokenAddress walletAddress. Inr 5000000),
      w_balanceAfter = (\<lambda>tokenAddress walletAddress. Inr 4000000),
      w_getNetwork = Inr 1,
      w_allowance = (\<lambda>tokenAddress walletAddress. Inr 0),
      w_approve = (\<lambda>tokenAddress. Inr ()),
      w_executeTrade = (\<lambda>i step. Inr (if i = 0 then ''0xtx1'' else ''0xtx2'')),
      w_waitForTransaction = (\<lambda>i txHash.
         Inr (Some \<lparr>r_status = Some (if i = 0 then 1 else 0), r_gasUsed = 120000\<rparr>)),
      w_startTime = 5000,
      w_endTime = 9000,
      w_tradesStartTime = 6000,
      w_tradesEndTime = 8500\<rparr>"

definition idle_engine :: TradingExecutionEngine where
  "idle_engine = \<lparr>isExecuting = False, executionHistory = [], walletReady = True\<rparr>"

definition failing_node :: V3Node where
  "failing_node =
     \<lparr>v3_quoterContract = Inr (),
      v3_quoteExactInputSingle =
        (\<lambda>tokenIn tokenOut fee amountIn sqrtPriceLimitX96. Inl (Collaborator ''execution reverted''))\<rparr>"

definition empty_node :: V3Node where
  "empty_node =
     \<lparr>v3_quoterContract = Inr (),
      v3_quoteExactInputSingle = (\<lambda>tokenIn tokenOut fee amountIn sqrtPriceLimitX96. Inr 0)\<rparr>"

definition blacklisting_ledger :: RiskManager where
  "blacklisting_ledger = addTokenToBlacklist (t_address usdc) (new_RiskManager 1500)"

definition busy_engine :: TradingExecutionEngine where
  "busy_engine = \<lparr>isExecuting = True, executionHistory = [], walletReady = True\<rparr>"

definition doubtful_world :: World where
  "doubtful_world =
     second_leg_fails\<lparr>w_predictOpportunity :=
       Inr \<lparr>ai_confidence = 0.3, ai_riskScore = 0.5, ai_executionProbability = 0.5\<rparr>\<rparr>"

text \<open>
  Configured slippages: the doubles that \<open>parseFloat\<close> reads from \<open>'0.02'\<close> (the
  default), \<open>'0.0005'\<close>, \<open>'0.07'\<close> and \<open>'0.181'\<close>.
\<close>

definition default_slippage :: real where
  "default_slippage = round_double 0.02"

definition tight_slippage :: real where
  "tight_slippage = round_double 0.0005"

definition seven_percent :: real where
  "seven_percent = round_double 0.07"

definition wide_slippage :: real where
  "wide_slippage = round_double 0.181"

section \<open>Risk Gate: bounds on the scoring dimensions\<close>

lemmas risk_defs = assessRisk_def assessTokenRisk_def assessProtocolRisk_def assessLiquidityRisk_def
  assessProfitRisk_def assessAIPredictionRisk_def assessPositionSizeRisk_def
  assessMarketConditionsRisk_def shouldExecuteTrade_def calculateAdjustedPositionSize_def
  calculateAdjustedSlippage_def riskLevelOf_def sizeMultiplier_def resetDailyLimits_def
  new_RiskManager_def quotient_exceeds_def bigint_div_def stablecoins_def majorTokens_def
  trustedProtocols_def toLowerCase_def lower_char_def addTokenToBlacklist_def

lemmas example_defs = usdc_def usdt_def deep_pool_def stable_opp_def cfg_of_def confident_ai_def
  busy_ledger_def blacklisting_ledger_def

lemma tokenRisk_lower: "- 5 \<le> fst (assessTokenRisk rm opp)"
  by (simp add: assessTokenRisk_def Let_def)

lemma tokenRisk_blacklisted:
  "toLowerCase (t_address (o_tokenA opp)) \<in> blacklistedTokens rm
     \<or> toLowerCase (t_address (o_tokenB opp)) \<in> blacklistedTokens rm
   \<Longrightarrow> 95 \<le> fst (assessTokenRisk rm opp)"
  by (auto simp add: assessTokenRisk_def Let_def)

lemma protocolRisk_lower: "0 \<le> fst (assessProtocolRisk rm opp)"
  by (simp add: assessProtocolRisk_def Let_def)

lemma liquidityRisk_lower: "0 \<le> fst (assessLiquidityRisk opp)"
  by (simp add: assessLiquidityRisk_def Let_def)

lemma profitRisk_lower: "0 \<le> fst (assessProfitRisk opp)"
  by (simp add: assessProfitRisk_def Let_def)

lemma profitRisk_thin: "o_profitPercentage opp < 0.1 \<Longrightarrow> 25 \<le> fst (assessProfitRisk opp)"
  by (simp add: assessProfitRisk_def Let_def)

lemma profitRisk_thin_reason:
  "o_profitPercentage opp < 0.1
   \<Longrightarrow> ''Very low profit margin - high execution risk'' \<in> set (snd (assessProfitRisk opp))"
  by (simp add: assessProfitRisk_def Let_def)

lemma aiRisk_lower: "- 5 \<le> fst (assessAIPredictionRisk ai)"
  by (simp add: assessAIPredictionRisk_def Let_def)

lemma aiRisk_opt_lower:
  "- 5 \<le> fst (case ai of None \<Rightarrow> (0, []) | Some a \<Rightarrow> assessAIPredictionRisk a)"
  using aiRisk_lower by (cases ai) simp_all

lemma positionRisk_lower: "0 \<le> fst (assessPositionSizeRisk cfg rm opp)"
  by (simp add: assessPositionSizeRisk_def Let_def)

lemma marketRisk_lower: "0 \<le> fst (assessMarketConditionsRisk now rm opp)"
  by (simp add: assessMarketConditionsRisk_def Let_def)

subsection \<open>The parts of an assessment\<close>

lemma assessRisk_score:
  "riskScoreOf cfg now rm opp ai =
     fst (assessTokenRisk (ledger_seen now rm) opp) + fst (assessProtocolRisk (ledger_seen now rm) opp)
     + fst (assessLiquidityRisk opp) + fst (assessProfitRisk opp)
     + fst (case ai of None \<Rightarrow> (0, []) | Some a \<Rightarrow> assessAIPredictionRisk a)
     + fst (assessPositionSizeRisk cfg (ledger_seen now rm) opp)
     + fst (assessMarketConditionsRisk now (ledger_seen now rm) opp)"
  by (simp add: assessRisk_def Let_def ledger_seen_def)

lemma assessRisk_shouldExecute:
  "ra_shouldExecute (fst (assessRisk cfg now rm opp ai)) =
     shouldExecuteTrade cfg (ledger_seen now rm) (riskScoreOf cfg now rm opp ai) opp"
  by (simp add: assessRisk_def Let_def ledger_seen_def)

lemma assessRisk_level:
  "ra_riskLevel (fst (assessRisk cfg now rm opp ai)) = riskLevelOf (riskScoreOf cfg now rm opp ai)"
  by (simp add: assessRisk_def Let_def)

lemma assessRisk_size:
  "ra_adjustedPositionSize (fst (assessRisk cfg now rm opp ai))
     = calculateAdjustedPositionSize opp (riskScoreOf cfg now rm opp ai)"
  by (simp add: assessRisk_def Let_def)

lemma assessRisk_ledger: "snd (assessRisk cfg now rm opp ai) = ledger_seen now rm"
  by (simp add: assessRisk_def Let_def ledger_seen_def)

lemma ledger_seen_blacklistedTokens [simp]:
  "blacklistedTokens (ledger_seen now rm) = blacklistedTokens rm"
  by (simp add: ledger_seen_def resetDailyLimits_def)

lemma ledger_seen_activeTrades [simp]: "activeTrades (ledger_seen now rm) = activeTrades rm"
  by (simp add: ledger_seen_def resetDailyLimits_def)

lemma ledger_seen_active:
  "ledger_seen now (rm\<lparr>activeTrades := a\<rparr>) = (ledger_seen now rm)\<lparr>activeTrades := a\<rparr>"
  by (simp add: ledger_seen_def resetDailyLimits_def)

lemma bigint_div_100: "bigint_div (x * 100) 100 = x"
  by (simp add: bigint_div_def abs_mult sgn_mult mult_sgn_abs)

lemma bigint_div_nonneg: "0 \<le> a \<Longrightarrow> 0 < b \<Longrightarrow> bigint_div a b = a div b"
  by (cases "a = 0") (simp_all add: bigint_div_def)

subsection \<open>The wording of the reasons\<close>

lemma reason_words:
  "\<not> mentions_threshold ''AI indicates high risk''"
  "\<not> mentions_threshold ''AI indicates moderate risk''"
  "\<not> mentions_threshold ''Cross-protocol arbitrage - additional execution risk''"
  "\<not> mentions_threshold ''High AI confidence - reduced risk''"
  "\<not> mentions_threshold ''High liquidity utilization - increased slippage risk''"
  "\<not> mentions_threshold ''High profit margin - verify data freshness''"
  "\<not> mentions_threshold ''Large position size relative to limits''"
  "\<not> mentions_threshold ''Low AI confidence in opportunity''"
  "\<not> mentions_threshold ''Low execution probability predicted''"
  "\<not> mentions_threshold ''Low liquidity pools''"
  "\<not> mentions_threshold ''Low profit margin - moderate execution risk''"
  "\<not> mentions_threshold ''Major token pair - slightly reduced risk''"
  "\<not> mentions_threshold ''Moderate AI confidence''"
  "\<not> mentions_threshold ''Moderate liquidity utilization''"
  "\<not> mentions_threshold ''Moderately aged opportunity''"
  "\<not> mentions_threshold ''Multiple concurrent trades - increased risk''"
  "\<not> mentions_threshold ''Protocol is blacklisted''"
  "\<not> mentions_threshold ''Recent trade execution - cooldown period''"
  "\<not> mentions_threshold ''Stablecoin pair - reduced risk''"
  "\<not> mentions_threshold ''Stale opportunity - data may be outdated''"
  "\<not> mentions_threshold ''Token is blacklisted''"
  "\<not> mentions_threshold ''Unknown token pair - increased risk''"
  "\<not> mentions_threshold ''Unusually high profit margin - possible stale data''"
  "\<not> mentions_threshold ''Using less established protocol''"
  "\<not> mentions_threshold ''Very low liquidity pools''"
  "\<not> mentions_threshold ''Very low profit margin - high execution risk''"
  "\<not> mentions_threshold ''Would exceed daily volume limits''"
  by code_simp+

lemma no_threshold_token: "filter mentions_threshold (snd (assessTokenRisk rm opp)) = []"
  by (simp add: assessTokenRisk_def Let_def reason_words)

lemma no_threshold_protocol: "filter mentions_threshold (snd (assessProtocolRisk rm opp)) = []"
  by (simp add: assessProtocolRisk_def Let_def reason_words)

lemma no_threshold_liquidity: "filter mentions_threshold (snd (assessLiquidityRisk opp)) = []"
  by (simp add: assessLiquidityRisk_def Let_def reason_words)

lemma no_threshold_profit: "filter mentions_threshold (snd (assessProfitRisk opp)) = []"
  by (simp add: assessProfitRisk_def Let_def reason_words)

lemma no_threshold_ai: "filter mentions_threshold (snd (assessAIPredictionRisk ai)) = []"
  by (simp add: assessAIPredictionRisk_def Let_def reason_words)

lemma no_threshold_position:
  "filter mentions_threshold (snd (assessPositionSizeRisk cfg rm opp)) = []"
  by (simp add: assessPositionSizeRisk_def Let_def reason_words)

lemma no_threshold_market:
  "filter mentions_threshold (snd (assessMarketConditionsRisk now rm opp)) = []"
  by (simp add: assessMarketConditionsRisk_def Let_def reason_words)

lemma no_threshold_reason:
  "filter mentions_threshold (ra_reasons (fst (assessRisk cfg now rm opp ai))) = []"
  by (cases ai)
     (simp_all add: assessRisk_def Let_def no_threshold_token no_threshold_protocol
        no_threshold_liquidity no_threshold_profit no_threshold_ai no_threshold_position
        no_threshold_market)

subsection \<open>Monotonicity of the single dimensions\<close>

lemma quotient_exceeds_mono:
  assumes "0 \<le> m'" "m' \<le> m" "0 < c" "quotient_exceeds x m c"
  shows "quotient_exceeds x m' c"
proof (cases "m = 0")
  case True
  with assms show ?thesis by simp
next
  case False
  with assms have m: "0 < m" by simp
  from assms(4) False have cx: "c < x / m" by (simp add: quotient_exceeds_def)
  have x: "0 < x"
  proof (rule ccontr)
    assume "\<not> 0 < x"
    then have "x / m \<le> 0" using m by (simp add: divide_nonpos_pos)
    with cx assms(3) show False by simp
  qed
  show ?thesis
  proof (cases "m' = 0")
    case True
    with x show ?thesis by (simp add: quotient_exceeds_def)
  next
    case False
    with assms have m': "0 < m'" by simp
    have "x / m \<le> x / m'"
      using x m' assms(2) by (simp add: frac_le)
    with cx False show ?thesis by (simp add: quotient_exceeds_def)
  qed
qed

lemma quotient_exceeds_weaken:
  "c' \<le> c \<Longrightarrow> quotient_exceeds x m c \<Longrightarrow> quotient_exceeds x m c'"
  by (auto simp add: quotient_exceeds_def)

lemma liquidityRisk_score:
  "fst (assessLiquidityRisk opp) =
     (let m = min (p_liquidity (o_buyPool opp)) (p_liquidity (o_sellPool opp));
          x = real_of_int (o_inputAmount opp) / 10 ^ 18
      in (if m < 10000 then 30 else if m < 100000 then 15 else 0)
         + (if quotient_exceeds x m 0.05 then 25 else if quotient_exceeds x m 0.02 then 10 else 0))"
  by (simp add: assessLiquidityRisk_def Let_def)

lemma floor_penalty_mono:
  fixes m m' :: real
  shows "m' \<le> m \<Longrightarrow>
     (if m < 10000 then 30 else if m < 100000 then 15 else (0::int))
       \<le> (if m' < 10000 then 30 else if m' < 100000 then 15 else 0)"
  by auto

lemma tier_penalty_mono:
  "(P5 \<Longrightarrow> Q5) \<Longrightarrow> (P2 \<Longrightarrow> Q2) \<Longrightarrow> (Q5 \<Longrightarrow> Q2) \<Longrightarrow>
     (if P5 then 25 else if P2 then 10 else (0::int)) \<le> (if Q5 then 25 else if Q2 then 10 else 0)"
  by auto

lemma liquidityRisk_mono:
  assumes "0 \<le> b'" "b' \<le> p_liquidity (o_buyPool opp)" "0 \<le> s'" "s' \<le> p_liquidity (o_sellPool opp)"
  shows "fst (assessLiquidityRisk opp) \<le> fst (assessLiquidityRisk (with_liquidity b' s' opp))"
proof -
  let ?x = "real_of_int (o_inputAmount opp) / 10 ^ 18"
  let ?m = "min (p_liquidity (o_buyPool opp)) (p_liquidity (o_sellPool opp))"
  let ?m' = "min b' s'"
  have m: "0 \<le> ?m'" "?m' \<le> ?m" using assms by auto
  have e5: "quotient_exceeds ?x ?m 0.05 \<Longrightarrow> quotient_exceeds ?x ?m' 0.05"
    using quotient_exceeds_mono [OF m] by simp
  have e2: "quotient_exceeds ?x ?m 0.02 \<Longrightarrow> quotient_exceeds ?x ?m' 0.02"
    using quotient_exceeds_mono [OF m] by simp
  have e52: "quotient_exceeds ?x ?m' 0.05 \<Longrightarrow> quotient_exceeds ?x ?m' 0.02"
    by (rule quotient_exceeds_weaken) simp_all
  have "fst (assessLiquidityRisk opp) =
          (if ?m < 10000 then 30 else if ?m < 100000 then 15 else 0)
          + (if quotient_exceeds ?x ?m 0.05 then 25 else if quotient_exceeds ?x ?m 0.02 then 10 else 0)"
    by (simp only: liquidityRisk_score Let_def)
  moreover have "fst (assessLiquidityRisk (with_liquidity b' s' opp)) =
          (if ?m' < 10000 then 30 else if ?m' < 100000 then 15 else 0)
          + (if quotient_exceeds ?x ?m' 0.05 then 25 else if quotient_exceeds ?x ?m' 0.02 then 10 else 0)"
    by (simp add: liquidityRisk_score Let_def with_liquidity_def)
  moreover have
    "(if quotient_exceeds ?x ?m 0.05 then 25 else if quotient_exceeds ?x ?m 0.02 then 10 else (0::int))
       \<le> (if quotient_exceeds ?x ?m' 0.05 then 25 else if quotient_exceeds ?x ?m' 0.02 then 10 else 0)"
    by (rule tier_penalty_mono, erule e5, erule e2, erule e52)
  ultimately show ?thesis
    using floor_penalty_mono [OF m(2)] by linarith
qed

lemma profitRisk_mono:
  assumes "p' \<le> o_profitPercentage opp"
    "o_profitPercentage opp \<le> 2 \<or> p' < 0.1 \<or> (p' < 0.2 \<and> o_profitPercentage opp \<le> 5)"
  shows "fst (assessProfitRisk opp) \<le> fst (assessProfitRisk (opp\<lparr>o_profitPercentage := p'\<rparr>))"
  using assms by (auto simp add: assessProfitRisk_def Let_def)

lemma profitRisk_drop:
  assumes "5 < o_profitPercentage opp" "0.1 \<le> p'" "p' < 0.2"
  shows "fst (assessProfitRisk (opp\<lparr>o_profitPercentage := p'\<rparr>)) < fst (assessProfitRisk opp)"
  using assms by (simp add: assessProfitRisk_def Let_def)

lemma sizeMultiplier_band:
  "15 < riskScore \<Longrightarrow> riskScore \<le> 20
   \<Longrightarrow> calculateAdjustedPositionSize opp riskScore = bigint_div (o_inputAmount opp * 85) 100"
  by (simp add: calculateAdjustedPositionSize_def sizeMultiplier_def)

lemma marketRisk_mono_age:
  assumes "t' \<le> o_timestamp opp"
  shows "fst (assessMarketConditionsRisk now rm opp)
           \<le> fst (assessMarketConditionsRisk now rm (opp\<lparr>o_timestamp := t'\<rparr>))"
  using assms by (simp add: assessMarketConditionsRisk_def Let_def)

lemma marketRisk_mono_active:
  assumes "activeTrades rm \<le> a'"
  shows "fst (assessMarketConditionsRisk now rm opp)
           \<le> fst (assessMarketConditionsRisk now (rm\<lparr>activeTrades := a'\<rparr>) opp)"
  using assms by (simp add: assessMarketConditionsRisk_def Let_def)

lemma score_liquidity:
  "riskScoreOf cfg now rm (with_liquidity b s opp) ai
     = riskScoreOf cfg now rm opp ai - fst (assessLiquidityRisk opp)
         + fst (assessLiquidityRisk (with_liquidity b s opp))"
  by (simp add: assessRisk_score)
     (simp add: with_liquidity_def assessTokenRisk_def assessProtocolRisk_def assessProfitRisk_def
        assessPositionSizeRisk_def assessMarketConditionsRisk_def)

lemma score_profit:
  "riskScoreOf cfg now rm (opp\<lparr>o_profitPercentage := p\<rparr>) ai
     = riskScoreOf cfg now rm opp ai - fst (assessProfitRisk opp)
         + fst (assessProfitRisk (opp\<lparr>o_profitPercentage := p\<rparr>))"
  by (simp add: assessRisk_score)
     (simp add: assessTokenRisk_def assessProtocolRisk_def assessLiquidityRisk_def
        assessPositionSizeRisk_def assessMarketConditionsRisk_def)

lemma score_age:
  "riskScoreOf cfg now rm (opp\<lparr>o_timestamp := t\<rparr>) ai
     = riskScoreOf cfg now rm opp ai - fst (assessMarketConditionsRisk now (ledger_seen now rm) opp)
         + fst (assessMarketConditionsRisk now (ledger_seen now rm) (opp\<lparr>o_timestamp := t\<rparr>))"
  by (simp add: assessRisk_score)
     (simp add: assessTokenRisk_def assessProtocolRisk_def assessLiquidityRisk_def
        assessPositionSizeRisk_def assessProfitRisk_def)

lemma score_active:
  "riskScoreOf cfg now (rm\<lparr>activeTrades := a\<rparr>) opp ai
     = riskScoreOf cfg now rm opp ai - fst (assessMarketConditionsRisk now (ledger_seen now rm) opp)
         + fst (assessMarketConditionsRisk now ((ledger_seen now rm)\<lparr>activeTrades := a\<rparr>) opp)"
  by (simp add: assessRisk_score ledger_seen_active)
     (simp add: assessTokenRisk_def assessProtocolRisk_def assessPositionSizeRisk_def)

section \<open>Double arithmetic: rounding error and evaluation\<close>

lemma rne_error: "\<bar>real_of_int (rne y) - y\<bar> \<le> 1 / 2"
  by (simp add: rne_def Let_def)

lemma rne_nonneg: "0 \<le> y \<Longrightarrow> 0 \<le> rne y"
  by (simp add: rne_def Let_def)

lemma binade_down_upper:
  "x < 2 powi (k + 1) \<Longrightarrow> - 1022 \<le> k \<Longrightarrow> binade_down e x \<le> k"
proof (induction e x rule: binade_down.induct)
  case (1 e x)
  show ?case
  proof (cases "e \<le> - 1022 \<or> 2 powi e \<le> x")
    case True
    have "e \<le> k"
    proof (cases "e \<le> - 1022")
      case True
      with "1.prems" show ?thesis by simp
    next
      case False
      with True have "(2::real) powi e \<le> x" by simp
      with "1.prems" have lt: "(2::real) powi e < 2 powi (k + 1)" by simp
      show ?thesis
      proof (rule ccontr)
        assume "\<not> e \<le> k"
        then have "k + 1 \<le> e" by simp
        then have "(2::real) powi (k + 1) \<le> 2 powi e"
          by (rule power_int_increasing) simp
        with lt show False by simp
      qed
    qed
    with True show ?thesis by (simp add: binade_down.simps [of e x])
  next
    case False
    with "1.IH" "1.prems" show ?thesis by (simp add: binade_down.simps [of e x])
  qed
qed

lemma binade_down_eq:
  "2 powi k \<le> x \<Longrightarrow> x < 2 powi (k + 1) \<Longrightarrow> - 1022 \<le> k \<Longrightarrow> k \<le> e \<Longrightarrow> binade_down e x = k"
proof (induction e x rule: binade_down.induct)
  case (1 e x)
  show ?case
  proof (cases "e \<le> - 1022 \<or> 2 powi e \<le> x")
    case True
    have "binade_down e x \<le> k" using "1.prems" by (intro binade_down_upper)
    with True have "e \<le> k" by (simp add: binade_down.simps [of e x])
    with "1.prems" True show ?thesis by (simp add: binade_down.simps [of e x])
  next
    case False
    with "1.prems" have "k \<noteq> e" by auto
    with "1.prems" have "k \<le> e - 1" by simp
    with False "1.IH" "1.prems" show ?thesis by (simp add: binade_down.simps [of e x])
  qed
qed

lemma round_double_at:
  assumes "2 powi k \<le> \<bar>x\<bar>" "\<bar>x\<bar> < 2 powi (k + 1)" "- 1022 \<le> k" "k \<le> 1023"
  shows "round_double x = real_of_int (rne (x / 2 powi (k - 52))) * 2 powi (k - 52)"
  using binade_down_eq [OF assms] by (simp add: round_double_def binade_def Let_def)

lemma round_double_error:
  assumes "\<bar>x\<bar> < 2 powi (k + 1)" "- 1022 \<le> k"
  shows "\<bar>round_double x - x\<bar> \<le> 2 powi (k - 53)"
proof -
  define b where "b = binade x"
  define u :: real where "u = 2 powi (b - 52)"
  have b: "b \<le> k" unfolding b_def binade_def using assms by (rule binade_down_upper)
  have u0: "0 < u" by (simp add: u_def)
  have "round_double x - x = (real_of_int (rne (x / u)) - x / u) * u"
    using u0 by (simp add: round_double_def b_def u_def Let_def algebra_simps)
  then have "\<bar>round_double x - x\<bar> = \<bar>real_of_int (rne (x / u)) - x / u\<bar> * u"
    using u0 by (simp add: abs_mult)
  also have "\<dots> \<le> 1 / 2 * u"
    using rne_error [of "x / u"] u0 by (intro mult_right_mono) simp_all
  also have "\<dots> = 2 powi (b - 53)"
    by (simp add: u_def power_int_diff)
  also have "\<dots> \<le> 2 powi (k - 53)"
    using b by (intro power_int_increasing) simp_all
  finally show ?thesis .
qed

lemma round_double_nonneg: "0 \<le> x \<Longrightarrow> 0 \<le> round_double x"
  by (simp add: round_double_def Let_def rne_nonneg)

lemma slippage_thousandths_bounds:
  assumes "0 \<le> s" "s \<le> 1"
  shows "0 \<le> slippage_thousandths s"
    and "real_of_int (slippage_thousandths s) \<le> (1 - s) * 1000 + 1 / 2 ^ 42"
    and "(1 - s) * 1000 - 1 - 1 / 2 ^ 42 < real_of_int (slippage_thousandths s)"
proof -
  define m where "m = round_double (1 - s)"
  define p where "p = round_double (m * 1000)"
  have "\<bar>1 - s\<bar> < 2 powi (0 + 1)" using assms by simp
  from round_double_error [OF this] have em: "\<bar>m - (1 - s)\<bar> \<le> 1 / 2 ^ 53"
    by (simp add: m_def)
  have m0: "0 \<le> m" unfolding m_def using assms by (intro round_double_nonneg) simp
  from em assms have m1: "m \<le> 1 + 1 / 2 ^ 53" by linarith
  have "m * 1000 \<le> (1 + 1 / 2 ^ 53) * 1000" using m1 by simp
  also have "\<dots> < 1024" by simp
  finally have "\<bar>m * 1000\<bar> < 2 powi (9 + 1)" using m0 by simp
  from round_double_error [OF this] have ep: "\<bar>p - m * 1000\<bar> \<le> 1 / 2 ^ 44"
    by (simp add: p_def)
  have p0: "0 \<le> p" unfolding p_def using m0 by (intro round_double_nonneg) simp
  have "m * 1000 - (1 - s) * 1000 = (m - (1 - s)) * 1000"
    by (simp add: algebra_simps)
  then have "\<bar>m * 1000 - (1 - s) * 1000\<bar> = \<bar>m - (1 - s)\<bar> * 1000"
    by (simp only: abs_mult)
  also have "\<dots> \<le> 1 / 2 ^ 53 * 1000" using em by simp
  finally have e2: "\<bar>m * 1000 - (1 - s) * 1000\<bar> \<le> 1 / 2 ^ 53 * 1000" .
  have "(1::real) / 2 ^ 44 + 1 / 2 ^ 53 * 1000 \<le> 1 / 2 ^ 42" by simp
  with ep e2 have tot: "\<bar>p - (1 - s) * 1000\<bar> \<le> 1 / 2 ^ 42" by linarith
  have k: "slippage_thousandths s = \<lfloor>p\<rfloor>" by (simp add: js_mul_def js_sub_def p_def m_def)
  show "0 \<le> slippage_thousandths s" using p0 by (simp add: k)
  show "real_of_int (slippage_thousandths s) \<le> (1 - s) * 1000 + 1 / 2 ^ 42"
    using tot unfolding k by linarith
  show "(1 - s) * 1000 - 1 - 1 / 2 ^ 42 < real_of_int (slippage_thousandths s)"
    using tot unfolding k by linarith
qed

subsection \<open>The configured slippages of the examples\<close>

lemma default_slippage_value: "default_slippage = 5764607523034235 / 2 ^ 58"
  unfolding default_slippage_def
  by (subst round_double_at [where k = "- 6"]) (simp_all add: rne_def Let_def)

lemma tight_slippage_value: "tight_slippage = 1152921504606847 / 2 ^ 61"
  unfolding tight_slippage_def
  by (subst round_double_at [where k = "- 11"]) (simp_all add: rne_def Let_def)

lemma seven_percent_value: "seven_percent = 1261007895663739 / 2 ^ 54"
  unfolding seven_percent_def
  by (subst round_double_at [where k = "- 4"]) (simp_all add: rne_def Let_def)

lemma wide_slippage_value: "wide_slippage = 3260606130216239 / 2 ^ 54"
  unfolding wide_slippage_def
  by (subst round_double_at [where k = "- 3"]) (simp_all add: rne_def Let_def)

lemma default_slippage_thousandths: "slippage_thousandths default_slippage = 980"
proof -
  have m: "js_sub 1 (5764607523034235 / 2 ^ 58) = 2206763817411543 / 2 ^ 51"
    unfolding js_sub_def
    by (subst round_double_at [where k = "- 1"]) (simp_all add: rne_def Let_def)
  have p: "js_mul (2206763817411543 / 2 ^ 51) 1000 = 980"
    unfolding js_mul_def
    by (subst round_double_at [where k = 9]) (simp_all add: rne_def Let_def)
  show ?thesis unfolding default_slippage_value m p by simp
qed

lemma tight_slippage_thousandths: "slippage_thousandths tight_slippage = 999"
proof -
  have m: "js_sub 1 (1152921504606847 / 2 ^ 61) = 4501347827556811 / 2 ^ 52"
    unfolding js_sub_def
    by (subst round_double_at [where k = "- 1"]) (simp_all add: rne_def Let_def)
  have p: "js_mul (4501347827556811 / 2 ^ 52) 1000 = 1999 / 2"
    unfolding js_mul_def
    by (subst round_double_at [where k = 9]) (simp_all add: rne_def Let_def)
  show ?thesis unfolding tight_slippage_value m p by simp
qed

text \<open>
  At 0.07 the product \<open>(1 - 0.07) * 1000\<close> is the double just below 930, and its floor is
  929; at 0.181 the product with 10000 is the double just below 8190.
\<close>

lemma seven_percent_thousandths: "slippage_thousandths seven_percent = 929"
proof -
  have m: "js_sub 1 (1261007895663739 / 2 ^ 54) = 4188347653454561 / 2 ^ 52"
    unfolding js_sub_def
    by (subst round_double_at [where k = "- 1"]) (simp_all add: rne_def Let_def)
  have p: "js_mul (4188347653454561 / 2 ^ 52) 1000 = 8180366510653439 / 2 ^ 43"
    unfolding js_mul_def
    by (subst round_double_at [where k = 9]) (simp_all add: rne_def Let_def)
  show ?thesis unfolding seven_percent_value m p by simp
qed

lemma wide_slippage_ten_thousandths: "\<lfloor>js_mul (js_sub 1 wide_slippage) 10000\<rfloor> = 8189"
proof -
  have m: "js_sub 1 (3260606130216239 / 2 ^ 54) = 922112023704109 / 2 ^ 50"
    unfolding js_sub_def
    by (subst round_double_at [where k = "- 1"]) (simp_all add: rne_def Let_def)
  have p: "js_mul (922112023704109 / 2 ^ 50) 10000 = 9005000231485439 / 2 ^ 40"
    unfolding js_mul_def
    by (subst round_double_at [where k = 12]) (simp_all add: rne_def Let_def)
  show ?thesis unfolding wide_slippage_value m p by simp
qed

lemma calculateMinAmount_seven_percent: "calculateMinAmount 1000000 seven_percent = 929000"
  by (simp add: calculateMinAmount_def Let_def seven_percent_thousandths bigint_div_def)

lemma calculateSlippageProtectedAmount_wide:
  "calculateSlippageProtectedAmount 1000000 wide_slippage = 818900"
  by (simp add: calculateSlippageProtectedAmount_def Let_def wide_slippage_ten_thousandths
        bigint_div_def)

text \<open>
  The multipliers of \<open>calculateAdjustedPositionSize\<close>: the floor of
  \<open>sizeMultiplier * 100\<close> is the same in double arithmetic as in the real numbers.
\<close>

lemma sizeMultiplier_floor_double:
  "\<lfloor>js_mul (round_double 1) 100\<rfloor> = \<lfloor>(1::real) * 100\<rfloor>"
  "\<lfloor>js_mul (round_double 0.5) 100\<rfloor> = \<lfloor>(0.5::real) * 100\<rfloor>"
  "\<lfloor>js_mul (round_double 0.7) 100\<rfloor> = \<lfloor>(0.7::real) * 100\<rfloor>"
  "\<lfloor>js_mul (round_double 0.85) 100\<rfloor> = \<lfloor>(0.85::real) * 100\<rfloor>"
proof -
  have a: "round_double 1 = 1"
    by (subst round_double_at [where k = 0]) (simp_all add: rne_def Let_def)
  have a': "round_double (1 * 100) = 100"
    by (subst round_double_at [where k = 6]) (simp_all add: rne_def Let_def)
  have b: "round_double 0.5 = 1 / 2"
    by (subst round_double_at [where k = "- 1"]) (simp_all add: rne_def Let_def)
  have b': "round_double (1 / 2 * 100) = 50"
    by (subst round_double_at [where k = 5]) (simp_all add: rne_def Let_def)
  have c: "round_double 0.7 = 3152519739159347 / 2 ^ 52"
    by (subst round_double_at [where k = "- 1"]) (simp_all add: rne_def Let_def)
  have c': "round_double (3152519739159347 / 2 ^ 52 * 100) = 70"
    by (subst round_double_at [where k = 6]) (simp_all add: rne_def Let_def)
  have d: "round_double 0.85 = 7656119366529843 / 2 ^ 53"
    by (subst round_double_at [where k = "- 1"]) (simp_all add: rne_def Let_def)
  have d': "round_double (7656119366529843 / 2 ^ 53 * 100) = 85"
    by (subst round_double_at [where k = 6]) (simp_all add: rne_def Let_def)
  show "\<lfloor>js_mul (round_double 1) 100\<rfloor> = \<lfloor>(1::real) * 100\<rfloor>"
    unfolding js_mul_def a a' by simp
  show "\<lfloor>js_mul (round_double 0.5) 100\<rfloor> = \<lfloor>(0.5::real) * 100\<rfloor>"
    unfolding js_mul_def b b' by simp
  show "\<lfloor>js_mul (round_double 0.7) 100\<rfloor> = \<lfloor>(0.7::real) * 100\<rfloor>"
    unfolding js_mul_def c c' by simp
  show "\<lfloor>js_mul (round_double 0.85) 100\<rfloor> = \<lfloor>(0.85::real) * 100\<rfloor>"
    unfolding js_mul_def d d' by simp
qed

section \<open>Venue Client, Scanner and Orchestrator: auxiliary facts\<close>

lemmas world_defs = second_leg_fails_def doubtful_world_def idle_engine_def busy_engine_def
  two_leg_opp_def uni_pool_def sushi_pool_def failing_node_def empty_node_def

lemma toString_nat_0: "toString_nat 0 = ''0''"
  by (simp add: toString_nat.simps [of 0] digit_def)

lemma v3_getQuote_total:
  "\<exists>s. UniswapV3Protocol_getQuote node tokenIn tokenOut amountIn pool = Inr s"
  by (auto simp add: UniswapV3Protocol_getQuote_def try_catch_def await_def Let_def
        split: sum.splits)

lemma v3_getQuote_contract_failure:
  "v3_quoterContract node = Inl e \<Longrightarrow>
     UniswapV3Protocol_getQuote node tokenIn tokenOut amountIn pool = Inr ''0''"
  by (simp add: UniswapV3Protocol_getQuote_def try_catch_def await_def)

lemma v3_getQuote_call_failure:
  "v3_quoteExactInputSingle node (t_address tokenIn) (t_address tokenOut)
      \<lfloor>p_fee pool * 1000000 + 1 / 2\<rfloor> amountIn 0 = Inl e \<Longrightarrow>
     UniswapV3Protocol_getQuote node tokenIn tokenOut amountIn pool = Inr ''0''"
  by (simp add: UniswapV3Protocol_getQuote_def try_catch_def await_def Let_def
        split: sum.splits)

lemma v3_getQuote_zero:
  "v3_quoteExactInputSingle node (t_address tokenIn) (t_address tokenOut)
      \<lfloor>p_fee pool * 1000000 + 1 / 2\<rfloor> amountIn 0 = Inr 0 \<Longrightarrow>
     UniswapV3Protocol_getQuote node tokenIn tokenOut amountIn pool = Inr ''0''"
  by (simp add: UniswapV3Protocol_getQuote_def try_catch_def await_def Let_def toString_nat_0
        split: sum.splits)

lemma div_1000_bounds:
  fixes a :: int
  shows "real_of_int (a div 1000) \<le> real_of_int a / 1000"
    and "real_of_int a / 1000 - 1 < real_of_int (a div 1000)"
proof -
  have fl: "a div 1000 = \<lfloor>real_of_int a / 1000\<rfloor>"
    using floor_divide_of_int_eq [of a 1000, where ?'a = real] by simp
  show "real_of_int (a div 1000) \<le> real_of_int a / 1000"
    unfolding fl by (rule of_int_floor_le)
  show "real_of_int a / 1000 - 1 < real_of_int (a div 1000)"
    unfolding fl by linarith
qed

lemma calculateMinAmount_eq:
  assumes "0 \<le> q" "0 \<le> s" "s \<le> 1"
  shows "calculateMinAmount q s = (q * slippage_thousandths s) div 1000"
proof -
  have "0 \<le> q * slippage_thousandths s"
    using assms(1) slippage_thousandths_bounds(1) [OF assms(2,3)] by simp
  then show ?thesis
    by (simp add: calculateMinAmount_def Let_def bigint_div_nonneg)
qed

lemma scaled_upper:
  fixes q k s e :: real
  assumes "0 \<le> q" "k \<le> (1 - s) * 1000 + e"
  shows "q * k / 1000 \<le> q * (1 - s) + q * e / 1000"
proof -
  have "q * k \<le> q * ((1 - s) * 1000 + e)"
    by (rule mult_left_mono [OF assms(2) assms(1)])
  then have "q * k / 1000 \<le> q * ((1 - s) * 1000 + e) / 1000"
    by (rule divide_right_mono) simp
  also have "\<dots> = q * (1 - s) + q * e / 1000"
    by (simp add: field_simps)
  finally show ?thesis .
qed

lemma scaled_lower:
  fixes q k s e :: real
  assumes "0 \<le> q" "(1 - s) * 1000 - 1 - e \<le> k"
  shows "q * (1 - s) - q / 1000 - q * e / 1000 \<le> q * k / 1000"
proof -
  have "q * ((1 - s) * 1000 - 1 - e) \<le> q * k"
    by (rule mult_left_mono [OF assms(2) assms(1)])
  then have "q * ((1 - s) * 1000 - 1 - e) / 1000 \<le> q * k / 1000"
    by (rule divide_right_mono) simp
  moreover have "q * ((1 - s) * 1000 - 1 - e) / 1000 = q * (1 - s) - q / 1000 - q * e / 1000"
    by (simp add: field_simps)
  ultimately show ?thesis by simp
qed

lemma calculateMinAmount_bounds:
  assumes q: "0 \<le> q" and s0: "0 \<le> s" and s1: "s \<le> 1"
  shows "real_of_int ((q * slippage_thousandths s) div 1000)
           \<le> real_of_int q * (1 - s) + real_of_int q / (1000 * 2 ^ 42)"
    and "real_of_int q * (1 - s) - real_of_int q / 1000 - real_of_int q / (1000 * 2 ^ 42) - 1
           < real_of_int ((q * slippage_thousandths s) div 1000)"
proof -
  define k where "k = slippage_thousandths s"
  have kle: "real_of_int k \<le> (1 - s) * 1000 + 1 / 2 ^ 42"
    unfolding k_def using s0 s1 by (rule slippage_thousandths_bounds(2))
  have kgt: "(1 - s) * 1000 - 1 - 1 / 2 ^ 42 \<le> real_of_int k"
    unfolding k_def using slippage_thousandths_bounds(3) [OF s0 s1] by simp
  have qr: "0 \<le> real_of_int q" using q by simp
  have eps: "real_of_int q * (1 / 2 ^ 42) / 1000 = real_of_int q / (1000 * 2 ^ 42)"
    by simp
  have up: "real_of_int (q * k) / 1000
              \<le> real_of_int q * (1 - s) + real_of_int q / (1000 * 2 ^ 42)"
    using scaled_upper [OF qr kle] unfolding eps by simp
  have lo: "real_of_int q * (1 - s) - real_of_int q / 1000 - real_of_int q / (1000 * 2 ^ 42)
              \<le> real_of_int (q * k) / 1000"
    using scaled_lower [OF qr kgt] unfolding eps by simp
  show "real_of_int ((q * slippage_thousandths s) div 1000)
           \<le> real_of_int q * (1 - s) + real_of_int q / (1000 * 2 ^ 42)"
    using div_1000_bounds(1) [of "q * k"] up unfolding k_def by linarith
  show "real_of_int q * (1 - s) - real_of_int q / 1000
                  - real_of_int q / (1000 * 2 ^ 42) - 1
           < real_of_int ((q * slippage_thousandths s) div 1000)"
    using div_1000_bounds(2) [of "q * k"] lo unfolding k_def by linarith
qed

lemma calculateArbitrage_Some:
  assumes "calculateArbitrage cfg now w tokenA tokenB poolA poolB = Some opp"
  shows "\<exists>q1 q2.
           w_getQuote w (p_protocol poolA) tokenA tokenB (10 ^ t_decimals tokenA) poolA = Inr q1
           \<and> w_getQuote w (p_protocol poolB) tokenB tokenA q1 poolB = Inr q2
           \<and> (o_buyPool opp = poolA \<and> o_sellPool opp = poolB
                \<or> o_buyPool opp = poolB \<and> o_sellPool opp = poolA)
           \<and> map s_pool (o_executionPath opp) = [o_buyPool opp, o_sellPool opp]
           \<and> map s_amountOutMin (o_executionPath opp)
                = [calculateMinAmount q1 (maxSlippage cfg), calculateMinAmount q2 (maxSlippage cfg)]"
  using assms
  by (auto simp add: calculateArbitrage_def await_def Let_def
        split: if_splits sum.splits option.splits prod.splits)

lemma executeSteps_submitted:
  "executeSteps w cid i steps h g = (e, h', g', sub) \<Longrightarrow> Suc k \<in> set sub \<Longrightarrow> i \<le> k
   \<Longrightarrow> Suc k < i + length steps \<and> confirmedSuccess w k (steps ! (k - i))"
proof (induction steps arbitrary: i h g e h' g' sub)
  case Nil
  then show ?case by simp
next
  case (Cons step steps)
  show ?case
  proof (cases "confirmedSuccess w i step \<and> w_hasProtocol w (s_protocol step) cid")
    case False
    with Cons.prems have "sub = [] \<or> sub = [i]"
      by (auto simp add: confirmedSuccess_def split: sum.splits option.splits if_splits)
    with Cons.prems show ?thesis by auto
  next
    case True
    then obtain tx r where tx: "w_executeTrade w i step = Inr tx"
      and r: "w_waitForTransaction w i tx = Inr (Some r)" and st: "r_status r = Some 1"
      by (auto simp add: confirmedSuccess_def split: sum.splits option.splits)
    obtain e2 h2 g2 sub2 where rec:
      "executeSteps w cid (Suc i) steps (h @ [tx]) (g + r_gasUsed r) = (e2, h2, g2, sub2)"
      by (metis prod_cases4)
    with Cons.prems(1) True tx r st have sub: "sub = i # sub2"
      by simp
    show ?thesis
    proof (cases "k = i")
      case True
      from Cons.prems(2) sub True have "Suc i \<in> set sub2" by simp
      then have "sub2 \<noteq> []" by auto
      with rec have "steps \<noteq> []" by (cases steps) auto
      with True \<open>confirmedSuccess w i step \<and> _\<close> show ?thesis by simp
    next
      case False
      with Cons.prems(3) have ik: "Suc i \<le> k" by simp
      from Cons.prems(2) sub Cons.prems(3) have "Suc k \<in> set sub2" by auto
      from Cons.IH [OF rec this ik] ik show ?thesis
        by (simp add: Suc_diff_le)
    qed
  qed
qed

lemma executeSteps_none_submitted:
  "executeSteps w cid i (step # steps) h g = (e, h', g', []) \<Longrightarrow> e \<noteq> None \<and> h' = h \<and> g' = g"
  by (auto split: sum.splits option.splits if_splits prod.splits)

lemma executeTrades_submitted:
  assumes "Suc k \<in> set (snd (executeTrades w eng opp))"
  shows "Suc k < length (o_executionPath opp) \<and> confirmedSuccess w k (o_executionPath opp ! k)"
proof -
  obtain e h g sub where st:
    "executeSteps w (t_chainId (o_tokenA opp)) 0 (o_executionPath opp) [] 0 = (e, h, g, sub)"
    by (metis prod_cases4)
  with assms have "Suc k \<in> set sub"
    by (auto simp add: executeTrades_def split: if_splits sum.splits option.splits)
  from executeSteps_submitted [OF st this] show ?thesis by simp
qed

lemma executeTrades_failure_shape:
  "fst (executeTrades w eng opp) = Inr r \<Longrightarrow> \<not> er_success r
   \<Longrightarrow> er_actualProfit r = 0 \<and> er_error r \<noteq> None"
  by (auto simp add: executeTrades_def split: if_splits sum.splits option.splits prod.splits)

lemma executeTrades_nothing_submitted:
  assumes "o_executionPath opp \<noteq> []" "snd (executeTrades w eng opp) = []"
    "fst (executeTrades w eng opp) = Inr r"
  shows "\<not> er_success r \<and> er_transactionHashes r = []"
proof -
  from assms(1) obtain step steps where p: "o_executionPath opp = step # steps"
    by (cases "o_executionPath opp") auto
  obtain e h g sub where st:
    "executeSteps w (t_chainId (o_tokenA opp)) 0 (step # steps) [] 0 = (e, h, g, sub)"
    by (metis prod_cases4)
  show ?thesis
  proof (cases "walletReady eng")
    case False
    with assms(3) show ?thesis by (simp add: executeTrades_def)
  next
    case True
    show ?thesis
    proof (cases "w_getAddress w")
      case (Inl a)
      with True assms(3) show ?thesis by (auto simp add: executeTrades_def)
    next
      case (Inr addr)
      with True assms(2) p st have "sub = []"
        by (auto simp add: executeTrades_def simp del: executeSteps.simps split: option.splits sum.splits)
      with st have "e \<noteq> None \<and> h = []"
        using executeSteps_none_submitted by blast
      with True Inr assms(3) p st show ?thesis
        by (auto simp add: executeTrades_def simp del: executeSteps.simps)
    qed
  qed
qed

lemma checkBalances_path:
  "checkBalancesAndApprovals w eng opp = Inr u \<Longrightarrow> o_executionPath opp \<noteq> []"
  by (auto simp add: checkBalancesAndApprovals_def await_def Let_def
        split: if_splits sum.splits list.splits)

lemma scenario_D:
  assumes "walletReady eng" "w_getAddress w = Inr addr" "o_executionPath opp = [leg1, leg2]"
    "w_hasProtocol w (s_protocol leg1) (t_chainId (o_tokenA opp))"
    "w_hasProtocol w (s_protocol leg2) (t_chainId (o_tokenA opp))"
    "w_executeTrade w 0 leg1 = Inr tx1" "w_waitForTransaction w 0 tx1 = Inr (Some r1)"
    "r_status r1 = Some 1"
    "w_executeTrade w 1 leg2 = Inr tx2" "w_waitForTransaction w 1 tx2 = Inr (Some r2)"
    "r_status r2 \<noteq> Some 1"
  shows "\<exists>r. fst (executeTrades w eng opp) = Inr r \<and> er_success r = False
              \<and> er_transactionHashes r = [tx1]"
  using assms by (simp add: executeTrades_def)


lemma try_block_shape:
  assumes "executeOpportunity_try cfg now w eng opp = (body, sub)"
  shows "(\<forall>r. body = Inr r \<longrightarrow>
            (\<not> er_success r \<longrightarrow> er_actualProfit r = 0 \<and> er_error r \<noteq> None)
            \<and> (sub = [] \<longrightarrow> \<not> er_success r \<and> er_transactionHashes r = []))
         \<and> (\<forall>e. body = Inl e \<longrightarrow> sub = [])"
proof (cases "\<exists>vo u. checkBalancesAndApprovals w eng vo = Inr u
                      \<and> executeOpportunity_try cfg now w eng opp = executeTrades w eng vo")
  case False
  with assms have "\<exists>e. body = Inl e \<and> sub = []"
    by (auto simp add: executeOpportunity_try_def Let_def split: sum.splits if_splits)
  then show ?thesis by auto
next
  case True
  then obtain vo u where cb: "checkBalancesAndApprovals w eng vo = Inr u"
    and et: "executeTrades w eng vo = (body, sub)"
    using assms by auto
  have path: "o_executionPath vo \<noteq> []" using cb by (rule checkBalances_path)
  have a: "body = Inr r \<Longrightarrow> \<not> er_success r \<Longrightarrow> er_actualProfit r = 0 \<and> er_error r \<noteq> None" for r
    using executeTrades_failure_shape [of w eng vo r] et by simp
  have b: "body = Inr r \<Longrightarrow> sub = [] \<Longrightarrow> \<not> er_success r \<and> er_transactionHashes r = []" for r
    using executeTrades_nothing_submitted [OF path, of w eng r] et by simp
  have c: "body = Inl e \<Longrightarrow> sub = []" for e
    using et by (auto simp add: executeTrades_def split: if_splits sum.splits option.splits prod.splits)
  from a b c show ?thesis by blast
qed

section \<open>Properties of the specification\<close>

subsection \<open>C1: what \<open>executeOpportunity\<close> hands to its caller\<close>

text \<open>
  C1, as the code has it. A call made while no other trade is executing and while trading
  is enabled always returns an \<open>ExecutionResult\<close>: nothing thrown inside the \<open>try\<close>
  block reaches the caller. A result that is not a success carries zero profit and an
  error; when no leg was submitted the result is a failure with an empty transaction list.
  The result is appended to the history and \<open>isExecuting\<close> is cleared. A call made
  while another trade is executing, or while trading is disabled, is refused by a throw
  to the caller before the \<open>try\<close> block is entered, and leaves the engine as it was.
\<close>

theorem executeOpportunity_result:
  "(\<not> isExecuting eng \<and> tradingEnabled cfg \<longrightarrow>
      (\<exists>r. fst (executeOpportunity cfg now w eng opp) = Inr r
         \<and> (\<not> er_success r \<longrightarrow> er_actualProfit r = 0 \<and> er_error r \<noteq> None)
         \<and> (snd (snd (executeOpportunity cfg now w eng opp)) = []
              \<longrightarrow> \<not> er_success r \<and> er_transactionHashes r = [])
         \<and> fst (snd (executeOpportunity cfg now w eng opp))
             = eng\<lparr>executionHistory := executionHistory eng @ [r], isExecuting := False\<rparr>))
   \<and> (isExecuting eng \<longrightarrow>
        executeOpportunity cfg now w eng opp = (Inl AnotherTradeExecuting, eng, []))
   \<and> (\<not> isExecuting eng \<and> \<not> tradingEnabled cfg \<longrightarrow>
        executeOpportunity cfg now w eng opp = (Inl TradingDisabled, eng, []))"
proof (intro conjI impI)
  assume g: "\<not> isExecuting eng \<and> tradingEnabled cfg"
  obtain body sub where t:
    "executeOpportunity_try cfg now w (eng\<lparr>isExecuting := True\<rparr>) opp = (body, sub)"
    by (cases "executeOpportunity_try cfg now w (eng\<lparr>isExecuting := True\<rparr>) opp") auto
  note shape = try_block_shape [OF t]
  show "\<exists>r. fst (executeOpportunity cfg now w eng opp) = Inr r
         \<and> (\<not> er_success r \<longrightarrow> er_actualProfit r = 0 \<and> er_error r \<noteq> None)
         \<and> (snd (snd (executeOpportunity cfg now w eng opp)) = []
              \<longrightarrow> \<not> er_success r \<and> er_transactionHashes r = [])
         \<and> fst (snd (executeOpportunity cfg now w eng opp))
             = eng\<lparr>executionHistory := executionHistory eng @ [r], isExecuting := False\<rparr>"
  proof (cases body)
    case (Inl e)
    with shape have "sub = []" by simp
    with g t Inl show ?thesis by (simp add: executeOpportunity_def Let_def)
  next
    case (Inr r)
    with g t shape show ?thesis by (simp add: executeOpportunity_def Let_def)
  qed
next
  assume "isExecuting eng"
  then show "executeOpportunity cfg now w eng opp = (Inl AnotherTradeExecuting, eng, [])"
    by (simp add: executeOpportunity_def)
next
  assume "\<not> isExecuting eng \<and> \<not> tradingEnabled cfg"
  then show "executeOpportunity cfg now w eng opp = (Inl TradingDisabled, eng, [])"
    by (simp add: executeOpportunity_def)
qed

text \<open>
  The three cases at concrete inputs: an idle engine whose AI annotation is below the
  confidence threshold (an early abort), a busy engine, and an idle engine with trading
  disabled.
\<close>

theorem executeOpportunity_result_witness:
  "(\<exists>r. fst (executeOpportunity (cfg_of 0.5 0.02 True) 2000 doubtful_world idle_engine
              two_leg_opp) = Inr r
        \<and> er_success r = False \<and> er_transactionHashes r = [] \<and> er_actualProfit r = 0
        \<and> er_error r \<noteq> None)
   \<and> executeOpportunity (cfg_of 0.5 0.02 True) 2000 second_leg_fails busy_engine two_leg_opp
       = (Inl AnotherTradeExecuting, busy_engine, [])
   \<and> executeOpportunity (cfg_of 0.5 0.02 False) 2000 second_leg_fails idle_engine two_leg_opp
       = (Inl TradingDisabled, idle_engine, [])"
proof -
  have g1: "\<not> isExecuting idle_engine \<and> tradingEnabled (cfg_of 0.5 0.02 True)"
    by (simp add: idle_engine_def cfg_of_def)
  have none: "snd (snd (executeOpportunity (cfg_of 0.5 0.02 True) 2000 doubtful_world
                          idle_engine two_leg_opp)) = []"
    by (simp add: executeOpportunity_def executeOpportunity_try_def Let_def idle_engine_def
          cfg_of_def doubtful_world_def second_leg_fails_def)
  have g2: "isExecuting busy_engine"
    by (simp add: busy_engine_def)
  have g3: "\<not> isExecuting idle_engine \<and> \<not> tradingEnabled (cfg_of 0.5 0.02 False)"
    by (simp add: idle_engine_def cfg_of_def)
  from executeOpportunity_result
         [of idle_engine "cfg_of 0.5 0.02 True" 2000 doubtful_world two_leg_opp] g1 none
  have a: "\<exists>r. fst (executeOpportunity (cfg_of 0.5 0.02 True) 2000 doubtful_world idle_engine
              two_leg_opp) = Inr r
        \<and> er_success r = False \<and> er_transactionHashes r = [] \<and> er_actualProfit r = 0
        \<and> er_error r \<noteq> None"
    by auto
  from executeOpportunity_result
         [of busy_engine "cfg_of 0.5 0.02 True" 2000 second_leg_fails two_leg_opp] g2
  have b: "executeOpportunity (cfg_of 0.5 0.02 True) 2000 second_leg_fails busy_engine
             two_leg_opp = (Inl AnotherTradeExecuting, busy_engine, [])"
    by simp
  from executeOpportunity_result
         [of idle_engine "cfg_of 0.5 0.02 False" 2000 second_leg_fails two_leg_opp] g3
  have c: "executeOpportunity (cfg_of 0.5 0.02 False) 2000 second_leg_fails idle_engine
             two_leg_opp = (Inl TradingDisabled, idle_engine, [])"
    by simp
  from a b c show ?thesis by simp
qed

text \<open>
  With another trade executing, the caller of \<open>executeOpportunity\<close> receives the thrown
  \<open>Error('Another trade is currently executing')\<close> and no \<open>ExecutionResult\<close>.
\<close>

theorem executeOpportunity_throws_when_busy:
  "isExecuting busy_engine
   \<and> fst (executeOpportunity (cfg_of 0.5 0.02 True) 2000 second_leg_fails busy_engine two_leg_opp)
       = Inl AnotherTradeExecuting"
  by (simp add: executeOpportunity_def busy_engine_def)

subsection \<open>C2: a profit of 0.05 against a threshold of 0.5\<close>

text \<open>
  C2, as the code has it. \<open>profitPercentage\<close> and \<open>minProfitThreshold\<close> are compared as
  they stand, so 0.05% against 0.5% is \<open>0.05\<close> against \<open>0.5\<close>. For every such
  opportunity, ledger, clock and annotation the assessment has \<open>shouldExecute = false\<close>,
  and its reasons contain \<open>'Very low profit margin - high execution risk'\<close>, the reason
  of the profit dimension for a profit under its fixed floor of 0.1. No reason of an
  assessment contains the word "threshold": \<open>shouldExecuteTrade\<close> returns a boolean and
  adds no reason.
\<close>

theorem thin_profit_rejected:
  assumes p: "o_profitPercentage opp = 0.05" and t: "minProfitThreshold cfg = 0.5"
  shows "ra_shouldExecute (fst (assessRisk cfg now rm opp ai)) = False
           \<and> ''Very low profit margin - high execution risk''
                \<in> set (ra_reasons (fst (assessRisk cfg now rm opp ai)))
           \<and> filter mentions_threshold (ra_reasons (fst (assessRisk cfg now rm opp ai))) = []"
proof -
  let ?rm = "ledger_seen now rm"
  let ?s = "riskScoreOf cfg now rm opp ai"
  from p have thin: "o_profitPercentage opp < 0.1" by simp
  have score: "15 \<le> ?s"
    unfolding assessRisk_score
    using tokenRisk_lower [of ?rm opp] protocolRisk_lower [of ?rm opp] liquidityRisk_lower [of opp]
      profitRisk_thin [OF thin] aiRisk_opt_lower [of ai]
      positionRisk_lower [of cfg ?rm opp] marketRisk_lower [of now ?rm opp]
    by linarith
  then have "(15::real) \<le> real_of_int ?s" by linarith
  then have "(0.05::real) < 0.5 * (1 + real_of_int ?s / 100)" by simp
  then have "o_profitPercentage opp < minProfitThreshold cfg * (1 + real_of_int ?s / 100)"
    by (simp only: p t)
  then have "shouldExecuteTrade cfg ?rm ?s opp = False"
    by (simp add: shouldExecuteTrade_def)
  moreover have "''Very low profit margin - high execution risk''
                   \<in> set (ra_reasons (fst (assessRisk cfg now rm opp ai)))"
    using profitRisk_thin_reason [OF thin] by (simp add: assessRisk_def Let_def)
  ultimately show ?thesis
    by (simp add: assessRisk_shouldExecute no_threshold_reason)
qed

theorem thin_profit_rejected_witness:
  "ra_shouldExecute (fst (assessRisk (cfg_of 0.5 0.02 True) 2000 (new_RiskManager 1500)
                            (stable_opp 0.05) None)) = False
   \<and> ''Very low profit margin - high execution risk''
        \<in> set (ra_reasons (fst (assessRisk (cfg_of 0.5 0.02 True) 2000 (new_RiskManager 1500)
                                   (stable_opp 0.05) None)))"
proof -
  have p: "o_profitPercentage (stable_opp 0.05) = 0.05"
    by (simp add: stable_opp_def)
  have t: "minProfitThreshold (cfg_of 0.5 0.02 True) = 0.5"
    by (simp add: cfg_of_def)
  from thin_profit_rejected [OF p t, of 2000 "new_RiskManager 1500" None]
  show ?thesis by simp
qed

text \<open>
  At a stablecoin pair with profit 0.05 and threshold 0.5 the reasons are the two listed,
  and neither mentions the threshold.
\<close>

theorem thin_profit_no_threshold_reason:
  "o_profitPercentage (stable_opp 0.05) = 0.05
   \<and> minProfitThreshold (cfg_of 0.5 0.02 True) = 0.5
   \<and> ra_reasons (fst (assessRisk (cfg_of 0.5 0.02 True) 2000 (new_RiskManager 1500)
                        (stable_opp 0.05) None))
       = [''Stablecoin pair - reduced risk'', ''Very low profit margin - high execution risk'']
   \<and> filter mentions_threshold
        (ra_reasons (fst (assessRisk (cfg_of 0.5 0.02 True) 2000 (new_RiskManager 1500)
                            (stable_opp 0.05) None))) = []"
  by (simp add: risk_defs example_defs Let_def reason_words)

text \<open>
  The default configuration writes 0.5% as \<open>0.005\<close>. Against that value the same
  opportunity passes the profit check, and the assessment approves it.
\<close>

lemma thin_profit_against_fractional_threshold:
  "ra_shouldExecute (fst (assessRisk (cfg_of 0.005 0.02 True) 2000 (new_RiskManager 1500)
                            (stable_opp 0.05) None)) = True"
  by (simp add: risk_defs example_defs Let_def)

subsection \<open>C3: what an assessment does to the ledger\<close>

text \<open>
  C3, as the code has it. \<open>assessRisk\<close> never changes the active-trade counter, the
  last-trade timestamp or the two blacklists. It leaves the whole ledger unchanged when
  the clock has not passed the ledger's daily reset time; when it has, \<open>assessRisk\<close>
  itself runs \<open>resetDailyLimits\<close>: the daily trade counter and the daily volume become
  zero and the reset time moves to the next UTC midnight.
\<close>

theorem assess_ledger_effect:
  "snd (assessRisk cfg now rm opp ai) =
     (if now > dailyResetTime rm
      then rm\<lparr>dailyResetTime := (now div 86400000 + 1) * 86400000,
              dailyVolume := 0, dailyTrades := 0\<rparr>
      else rm)
   \<and> activeTrades (snd (assessRisk cfg now rm opp ai)) = activeTrades rm
   \<and> lastTradeTime (snd (assessRisk cfg now rm opp ai)) = lastTradeTime rm
   \<and> blacklistedTokens (snd (assessRisk cfg now rm opp ai)) = blacklistedTokens rm
   \<and> blacklistedProtocols (snd (assessRisk cfg now rm opp ai)) = blacklistedProtocols rm"
  by (simp add: assessRisk_ledger ledger_seen_def resetDailyLimits_def)

theorem assess_ledger_effect_witness:
  "snd (assessRisk (cfg_of 0.5 0.02 True) 86400000 busy_ledger (stable_opp 0.5) None)
     = busy_ledger
   \<and> snd (assessRisk (cfg_of 0.5 0.02 True) 86400001 busy_ledger (stable_opp 0.5) None)
     = busy_ledger\<lparr>dailyResetTime := 172800000, dailyVolume := 0, dailyTrades := 0\<rparr>"
  using assess_ledger_effect [of "cfg_of 0.5 0.02 True" 86400000 busy_ledger "stable_opp 0.5" None]
    assess_ledger_effect [of "cfg_of 0.5 0.02 True" 86400001 busy_ledger "stable_opp 0.5" None]
  by (simp add: busy_ledger_def)

text \<open>
  One millisecond after the reset time, an assessment turns a ledger with seven daily
  trades and a daily volume of 5000000 into one with none.
\<close>

theorem assess_resets_daily_counters:
  "dailyTrades busy_ledger = 7 \<and> dailyVolume busy_ledger = 5000000
   \<and> dailyTrades (snd (assessRisk (cfg_of 0.5 0.02 True) 86400001 busy_ledger
                          (stable_opp 0.5) None)) = 0
   \<and> dailyVolume (snd (assessRisk (cfg_of 0.5 0.02 True) 86400001 busy_ledger
                          (stable_opp 0.5) None)) = 0"
  by (simp add: assessRisk_ledger ledger_seen_def resetDailyLimits_def busy_ledger_def)

subsection \<open>C4: a blacklisted asset\<close>

text \<open>
  C4. When the lower-cased address of either asset is in the asset blacklist, the risk
  score is at least 90 and \<open>shouldExecute\<close> is false, for every configuration, clock,
  ledger, opportunity and AI annotation (present or absent).
\<close>

theorem blacklisted_asset_rejected:
  assumes "toLowerCase (t_address (o_tokenA opp)) \<in> blacklistedTokens rm
             \<or> toLowerCase (t_address (o_tokenB opp)) \<in> blacklistedTokens rm"
  shows "90 \<le> ra_riskScore (fst (assessRisk cfg now rm opp ai))
           \<and> ra_shouldExecute (fst (assessRisk cfg now rm opp ai)) = False"
proof -
  let ?rm = "ledger_seen now rm"
  from assms have tok: "95 \<le> fst (assessTokenRisk ?rm opp)"
    by (intro tokenRisk_blacklisted) simp
  have score: "90 \<le> riskScoreOf cfg now rm opp ai"
    unfolding assessRisk_score
    using tok protocolRisk_lower [of ?rm opp] liquidityRisk_lower [of opp]
      profitRisk_lower [of opp] aiRisk_opt_lower [of ai]
      positionRisk_lower [of cfg ?rm opp] marketRisk_lower [of now ?rm opp]
    by linarith
  then have "shouldExecuteTrade cfg ?rm (riskScoreOf cfg now rm opp ai) opp = False"
    by (simp add: shouldExecuteTrade_def)
  with score show ?thesis
    by (simp add: assessRisk_shouldExecute)
qed

text \<open>
  A blacklisted stablecoin pair with a confident AI annotation: every bonus applies and
  the score is still 90.
\<close>

theorem blacklisted_asset_rejected_witness:
  "90 \<le> ra_riskScore (fst (assessRisk (cfg_of 0.5 0.02 True) 2000 blacklisting_ledger
                               (stable_opp 0.5) (Some confident_ai)))
   \<and> ra_shouldExecute (fst (assessRisk (cfg_of 0.5 0.02 True) 2000 blacklisting_ledger
                               (stable_opp 0.5) (Some confident_ai))) = False"
proof -
  have h: "toLowerCase (t_address (o_tokenA (stable_opp 0.5))) \<in> blacklistedTokens blacklisting_ledger
             \<or> toLowerCase (t_address (o_tokenB (stable_opp 0.5)))
                  \<in> blacklistedTokens blacklisting_ledger"
    by (simp add: blacklisting_ledger_def addTokenToBlacklist_def stable_opp_def usdc_def)
  from blacklisted_asset_rejected [OF h] show ?thesis .
qed

subsection \<open>C5: legs are submitted one after the other\<close>

text \<open>
  C5. In \<open>executeTrades\<close>, leg \<open>k + 1\<close> is handed to the venue only if leg \<open>k\<close> was
  submitted and confirmed with status 1. And when the path has two legs, the first
  confirms with status 1 and the second with another status, the result has
  \<open>success = false\<close> and its \<open>transactionHashes\<close> are exactly the first leg's.
\<close>

theorem sequential_legs:
  "(Suc k \<in> set (snd (executeTrades w eng opp)) \<longrightarrow>
      Suc k < length (o_executionPath opp) \<and> confirmedSuccess w k (o_executionPath opp ! k))
   \<and> (walletReady eng \<and> w_getAddress w = Inr addr \<and> o_executionPath opp = [leg1, leg2]
        \<and> w_hasProtocol w (s_protocol leg1) (t_chainId (o_tokenA opp))
        \<and> w_hasProtocol w (s_protocol leg2) (t_chainId (o_tokenA opp))
        \<and> w_executeTrade w 0 leg1 = Inr tx1 \<and> w_waitForTransaction w 0 tx1 = Inr (Some r1)
        \<and> r_status r1 = Some 1
        \<and> w_executeTrade w 1 leg2 = Inr tx2 \<and> w_waitForTransaction w 1 tx2 = Inr (Some r2)
        \<and> r_status r2 \<noteq> Some 1
      \<longrightarrow> (\<exists>r. fst (executeTrades w eng opp) = Inr r \<and> er_success r = False
                \<and> er_transactionHashes r = [tx1]))"
  using executeTrades_submitted [of k w eng opp]
    scenario_D [of eng w addr opp leg1 leg2 tx1 r1 tx2 r2]
  by blast

theorem sequential_legs_witness:
  "confirmedSuccess second_leg_fails 0 (o_executionPath two_leg_opp ! 0)
   \<and> (\<exists>r. fst (executeTrades second_leg_fails idle_engine two_leg_opp) = Inr r
          \<and> er_success r = False \<and> er_transactionHashes r = [''0xtx1''])"
proof -
  have sub: "Suc 0 \<in> set (snd (executeTrades second_leg_fails idle_engine two_leg_opp))"
    by (simp add: executeTrades_def world_defs example_defs)
  have d: "walletReady idle_engine \<and> w_getAddress second_leg_fails = Inr ''0xwallet''
        \<and> o_executionPath two_leg_opp = [o_executionPath two_leg_opp ! 0, o_executionPath two_leg_opp ! 1]
        \<and> w_hasProtocol second_leg_fails (s_protocol (o_executionPath two_leg_opp ! 0))
            (t_chainId (o_tokenA two_leg_opp))
        \<and> w_hasProtocol second_leg_fails (s_protocol (o_executionPath two_leg_opp ! 1))
            (t_chainId (o_tokenA two_leg_opp))
        \<and> w_executeTrade second_leg_fails 0 (o_executionPath two_leg_opp ! 0) = Inr ''0xtx1''
        \<and> w_waitForTransaction second_leg_fails 0 ''0xtx1''
            = Inr (Some \<lparr>r_status = Some 1, r_gasUsed = 120000\<rparr>)
        \<and> r_status \<lparr>r_status = Some 1, r_gasUsed = 120000\<rparr> = Some 1
        \<and> w_executeTrade second_leg_fails 1 (o_executionPath two_leg_opp ! 1) = Inr ''0xtx2''
        \<and> w_waitForTransaction second_leg_fails 1 ''0xtx2''
            = Inr (Some \<lparr>r_status = Some 0, r_gasUsed = 120000\<rparr>)
        \<and> r_status \<lparr>r_status = Some 0, r_gasUsed = 120000\<rparr> \<noteq> Some 1"
    by (simp add: world_defs)
  from sequential_legs
         [of 0 second_leg_fails idle_engine two_leg_opp "''0xwallet''"
             "o_executionPath two_leg_opp ! 0" "o_executionPath two_leg_opp ! 1"
             "''0xtx1''" "\<lparr>r_status = Some 1, r_gasUsed = 120000\<rparr>"
             "''0xtx2''" "\<lparr>r_status = Some 0, r_gasUsed = 120000\<rparr>"] sub d
  show ?thesis by blast
qed

subsection \<open>C6: monotonicity of the risk score\<close>

text \<open>
  C6, as the code has it. With every other input fixed, the risk score does not decrease
  when the liquidity of the pools decreases (liquidities being non-negative), when the
  opportunity gets older (its timestamp moves back), or when the active-trade count
  increases. It does not decrease either when the profit percentage drops to a value
  below the safety floor of 0.2, with one exception: a drop from above 5 to a value from
  0.1 up to, but not including, 0.2 lowers the score, because the penalty of 20 for an
  unusually high profit gives way to the penalty of 10 for a low one. (Nor does the score
  decrease when the profit decreases from any value of at most 2.)
\<close>

theorem risk_score_monotone:
  "(0 \<le> b' \<and> b' \<le> p_liquidity (o_buyPool opp) \<and> 0 \<le> s' \<and> s' \<le> p_liquidity (o_sellPool opp)
      \<longrightarrow> riskScoreOf cfg now rm opp ai \<le> riskScoreOf cfg now rm (with_liquidity b' s' opp) ai)
   \<and> (p' \<le> o_profitPercentage opp
        \<and> (p' < 0.1 \<or> (p' < 0.2 \<and> o_profitPercentage opp \<le> 5) \<or> o_profitPercentage opp \<le> 2)
      \<longrightarrow> riskScoreOf cfg now rm opp ai \<le> riskScoreOf cfg now rm (opp\<lparr>o_profitPercentage := p'\<rparr>) ai)
   \<and> (5 < o_profitPercentage opp \<and> 0.1 \<le> p'' \<and> p'' < 0.2
      \<longrightarrow> riskScoreOf cfg now rm (opp\<lparr>o_profitPercentage := p''\<rparr>) ai < riskScoreOf cfg now rm opp ai)
   \<and> (t' \<le> o_timestamp opp
      \<longrightarrow> riskScoreOf cfg now rm opp ai \<le> riskScoreOf cfg now rm (opp\<lparr>o_timestamp := t'\<rparr>) ai)
   \<and> (activeTrades rm \<le> a'
      \<longrightarrow> riskScoreOf cfg now rm opp ai \<le> riskScoreOf cfg now (rm\<lparr>activeTrades := a'\<rparr>) opp ai)"
proof (intro conjI impI)
  assume "0 \<le> b' \<and> b' \<le> p_liquidity (o_buyPool opp) \<and> 0 \<le> s' \<and> s' \<le> p_liquidity (o_sellPool opp)"
  then show "riskScoreOf cfg now rm opp ai \<le> riskScoreOf cfg now rm (with_liquidity b' s' opp) ai"
    using liquidityRisk_mono [of b' opp s'] by (simp add: score_liquidity)
next
  assume "p' \<le> o_profitPercentage opp
        \<and> (p' < 0.1 \<or> (p' < 0.2 \<and> o_profitPercentage opp \<le> 5) \<or> o_profitPercentage opp \<le> 2)"
  then have "fst (assessProfitRisk opp) \<le> fst (assessProfitRisk (opp\<lparr>o_profitPercentage := p'\<rparr>))"
    by (intro profitRisk_mono) auto
  then show "riskScoreOf cfg now rm opp ai
               \<le> riskScoreOf cfg now rm (opp\<lparr>o_profitPercentage := p'\<rparr>) ai"
    by (simp add: score_profit)
next
  assume "5 < o_profitPercentage opp \<and> 0.1 \<le> p'' \<and> p'' < 0.2"
  then have "fst (assessProfitRisk (opp\<lparr>o_profitPercentage := p''\<rparr>)) < fst (assessProfitRisk opp)"
    by (intro profitRisk_drop) simp_all
  then show "riskScoreOf cfg now rm (opp\<lparr>o_profitPercentage := p''\<rparr>) ai
               < riskScoreOf cfg now rm opp ai"
    by (simp add: score_profit)
next
  assume "t' \<le> o_timestamp opp"
  then show "riskScoreOf cfg now rm opp ai \<le> riskScoreOf cfg now rm (opp\<lparr>o_timestamp := t'\<rparr>) ai"
    using marketRisk_mono_age [of t' opp now "ledger_seen now rm"] by (simp add: score_age)
next
  assume "activeTrades rm \<le> a'"
  then show "riskScoreOf cfg now rm opp ai \<le> riskScoreOf cfg now (rm\<lparr>activeTrades := a'\<rparr>) opp ai"
    using marketRisk_mono_active [of "ledger_seen now rm" a' now opp] by (simp add: score_active)
qed

text \<open>
  At a profit of 3: shallower pools, a drop of the profit to 0.15, an older timestamp and
  a third active trade each leave the score where it is or raise it. At a profit of 6, a
  drop to 0.15 lowers it.
\<close>

theorem risk_score_monotone_witness:
  "riskScoreOf (cfg_of 0.5 0.02 True) 2000 busy_ledger (stable_opp 3) None
     \<le> riskScoreOf (cfg_of 0.5 0.02 True) 2000 busy_ledger
          (with_liquidity 1000 2000 (stable_opp 3)) None
   \<and> riskScoreOf (cfg_of 0.5 0.02 True) 2000 busy_ledger (stable_opp 3) None
     \<le> riskScoreOf (cfg_of 0.5 0.02 True) 2000 busy_ledger
          ((stable_opp 3)\<lparr>o_profitPercentage := 0.15\<rparr>) None
   \<and> riskScoreOf (cfg_of 0.5 0.02 True) 2000 busy_ledger
          ((stable_opp 6)\<lparr>o_profitPercentage := 0.15\<rparr>) None
     < riskScoreOf (cfg_of 0.5 0.02 True) 2000 busy_ledger (stable_opp 6) None
   \<and> riskScoreOf (cfg_of 0.5 0.02 True) 2000 busy_ledger (stable_opp 3) None
     \<le> riskScoreOf (cfg_of 0.5 0.02 True) 2000 busy_ledger
          ((stable_opp 3)\<lparr>o_timestamp := - 70000\<rparr>) None
   \<and> riskScoreOf (cfg_of 0.5 0.02 True) 2000 busy_ledger (stable_opp 3) None
     \<le> riskScoreOf (cfg_of 0.5 0.02 True) 2000 (busy_ledger\<lparr>activeTrades := 3\<rparr>)
          (stable_opp 3) None"
proof -
  have h: "(0::real) \<le> 1000 \<and> 1000 \<le> p_liquidity (o_buyPool (stable_opp 3))
             \<and> (0::real) \<le> 2000 \<and> 2000 \<le> p_liquidity (o_sellPool (stable_opp 3))"
    "0.15 \<le> o_profitPercentage (stable_opp 3)
       \<and> ((0.15::real) < 0.1 \<or> ((0.15::real) < 0.2 \<and> o_profitPercentage (stable_opp 3) \<le> 5)
            \<or> o_profitPercentage (stable_opp 3) \<le> 2)"
    "- 70000 \<le> o_timestamp (stable_opp 3)"
    "activeTrades busy_ledger \<le> 3"
    by (simp_all add: stable_opp_def deep_pool_def busy_ledger_def)
  have h6: "5 < o_profitPercentage (stable_opp 6) \<and> (0.1::real) \<le> 0.15 \<and> (0.15::real) < 0.2"
    by (simp add: stable_opp_def)
  from risk_score_monotone
         [of 1000 "stable_opp 3" 2000 "cfg_of 0.5 0.02 True" 2000 busy_ledger None
             "0.15" "0.15" "- 70000" 3] h
  have a: "riskScoreOf (cfg_of 0.5 0.02 True) 2000 busy_ledger (stable_opp 3) None
     \<le> riskScoreOf (cfg_of 0.5 0.02 True) 2000 busy_ledger
          (with_liquidity 1000 2000 (stable_opp 3)) None
   \<and> riskScoreOf (cfg_of 0.5 0.02 True) 2000 busy_ledger (stable_opp 3) None
     \<le> riskScoreOf (cfg_of 0.5 0.02 True) 2000 busy_ledger
          ((stable_opp 3)\<lparr>o_profitPercentage := 0.15\<rparr>) None
   \<and> riskScoreOf (cfg_of 0.5 0.02 True) 2000 busy_ledger (stable_opp 3) None
     \<le> riskScoreOf (cfg_of 0.5 0.02 True) 2000 busy_ledger
          ((stable_opp 3)\<lparr>o_timestamp := - 70000\<rparr>) None
   \<and> riskScoreOf (cfg_of 0.5 0.02 True) 2000 busy_ledger (stable_opp 3) None
     \<le> riskScoreOf (cfg_of 0.5 0.02 True) 2000 (busy_ledger\<lparr>activeTrades := 3\<rparr>)
          (stable_opp 3) None"
    by blast
  from risk_score_monotone
         [of 1000 "stable_opp 6" 2000 "cfg_of 0.5 0.02 True" 2000 busy_ledger None
             "0.15" "0.15" "- 70000" 3] h6
  have b: "riskScoreOf (cfg_of 0.5 0.02 True) 2000 busy_ledger
          ((stable_opp 6)\<lparr>o_profitPercentage := 0.15\<rparr>) None
     < riskScoreOf (cfg_of 0.5 0.02 True) 2000 busy_ledger (stable_opp 6) None"
    by blast
  from a b show ?thesis by blast
qed

text \<open>
  A profit that drops from 6 to 0.15, under the floor of 0.2, lowers the score: the
  penalty of 20 for an unusually high profit is replaced by the penalty of 10 for a low
  one.
\<close>

theorem risk_score_drops_with_profit:
  "riskScoreOf (cfg_of 0.5 0.02 True) 2000 (new_RiskManager 1500) (stable_opp 6) None = 15
   \<and> riskScoreOf (cfg_of 0.5 0.02 True) 2000 (new_RiskManager 1500) (stable_opp 0.15) None = 5"
  by (simp add: risk_defs example_defs Let_def)

subsection \<open>C7: the minimum output of a scanned leg\<close>

text \<open>
  C7, as the code has it. For an opportunity that \<open>calculateArbitrage\<close> builds in the
  direction buy on pool A, sell on pool B, from non-negative quotes \<open>q1\<close> (pool A) and
  \<open>q2\<close> (pool B) and a slippage between 0 and 1, the minimum output of each leg is
  \<open>quote * K / 1000\<close> in integer arithmetic (the remainder dropped), where \<open>K\<close> is
  \<open>Math.floor((1 - maxSlippage) * 1000)\<close> as double arithmetic evaluates it. \<open>K\<close> is
  not negative, at most \<open>(1 - maxSlippage) * 1000 + 2 ^ -42\<close> and more than
  \<open>(1 - maxSlippage) * 1000 - 1 - 2 ^ -42\<close>. So the minimum output is at most
  \<open>quote * (1 - maxSlippage) + quote * 2 ^ -42 / 1000\<close>, and it is less than
  \<open>quote / 1000 + quote * 2 ^ -42 / 1000 + 1\<close> below \<open>quote * (1 - maxSlippage)\<close>.
\<close>

theorem scanner_min_out:
  assumes res: "calculateArbitrage cfg now w tokenA tokenB poolA poolB = Some opp"
    and dir: "poolA \<noteq> poolB" "o_buyPool opp = poolA"
    and s: "0 \<le> maxSlippage cfg" "maxSlippage cfg \<le> 1"
    and quote1: "w_getQuote w (p_protocol poolA) tokenA tokenB (10 ^ t_decimals tokenA) poolA = Inr q1"
    and quote2: "w_getQuote w (p_protocol poolB) tokenB tokenA q1 poolB = Inr q2"
    and nonneg: "0 \<le> q1" "0 \<le> q2"
  shows "map s_pool (o_executionPath opp) = [poolA, poolB]
         \<and> map s_amountOutMin (o_executionPath opp)
             = [(q1 * slippage_thousandths (maxSlippage cfg)) div 1000,
                (q2 * slippage_thousandths (maxSlippage cfg)) div 1000]
         \<and> 0 \<le> slippage_thousandths (maxSlippage cfg)
         \<and> real_of_int (slippage_thousandths (maxSlippage cfg))
             \<le> (1 - maxSlippage cfg) * 1000 + 1 / 2 ^ 42
         \<and> (1 - maxSlippage cfg) * 1000 - 1 - 1 / 2 ^ 42
             < real_of_int (slippage_thousandths (maxSlippage cfg))
         \<and> real_of_int ((q1 * slippage_thousandths (maxSlippage cfg)) div 1000)
             \<le> real_of_int q1 * (1 - maxSlippage cfg) + real_of_int q1 / (1000 * 2 ^ 42)
         \<and> real_of_int q1 * (1 - maxSlippage cfg) - real_of_int q1 / 1000
               - real_of_int q1 / (1000 * 2 ^ 42) - 1
             < real_of_int ((q1 * slippage_thousandths (maxSlippage cfg)) div 1000)
         \<and> real_of_int ((q2 * slippage_thousandths (maxSlippage cfg)) div 1000)
             \<le> real_of_int q2 * (1 - maxSlippage cfg) + real_of_int q2 / (1000 * 2 ^ 42)
         \<and> real_of_int q2 * (1 - maxSlippage cfg) - real_of_int q2 / 1000
               - real_of_int q2 / (1000 * 2 ^ 42) - 1
             < real_of_int ((q2 * slippage_thousandths (maxSlippage cfg)) div 1000)"
proof -
  from calculateArbitrage_Some [OF res] quote1 quote2 have
    pools: "o_buyPool opp = poolA \<and> o_sellPool opp = poolB
                  \<or> o_buyPool opp = poolB \<and> o_sellPool opp = poolA"
    and sp: "map s_pool (o_executionPath opp) = [o_buyPool opp, o_sellPool opp]"
    and mo: "map s_amountOutMin (o_executionPath opp)
                = [calculateMinAmount q1 (maxSlippage cfg), calculateMinAmount q2 (maxSlippage cfg)]"
    by auto
  from pools dir have sell: "o_sellPool opp = poolB" by auto
  from sp sell dir(2) have "map s_pool (o_executionPath opp) = [poolA, poolB]"
    by simp
  moreover from mo calculateMinAmount_eq [OF nonneg(1) s] calculateMinAmount_eq [OF nonneg(2) s]
  have "map s_amountOutMin (o_executionPath opp)
             = [(q1 * slippage_thousandths (maxSlippage cfg)) div 1000,
                (q2 * slippage_thousandths (maxSlippage cfg)) div 1000]"
    by simp
  moreover note slippage_thousandths_bounds [OF s]
    calculateMinAmount_bounds [OF nonneg(1) s] calculateMinAmount_bounds [OF nonneg(2) s]
  ultimately show ?thesis by blast
qed

text \<open>
  With the default slippage of 0.02 the number of thousandths is 980, and a quote of
  1010000 gives a minimum output of 989800.
\<close>

theorem scanner_min_out_witness:
  "map s_amountOutMin
     (o_executionPath (the (calculateArbitrage (cfg_of 0.5 default_slippage True) 2000
                              second_leg_fails usdc usdt uni_pool sushi_pool)))
     = [989800, 989800]"
proof -
  let ?opp = "the (calculateArbitrage (cfg_of 0.5 default_slippage True) 2000 second_leg_fails
                     usdc usdt uni_pool sushi_pool)"
  have some: "calculateArbitrage (cfg_of 0.5 default_slippage True) 2000 second_leg_fails
                usdc usdt uni_pool sushi_pool \<noteq> None"
    by (simp add: calculateArbitrage_def await_def profitPercent_def bigint_div_def Let_def
          world_defs example_defs)
  then have res: "calculateArbitrage (cfg_of 0.5 default_slippage True) 2000 second_leg_fails
                    usdc usdt uni_pool sushi_pool = Some ?opp"
    by simp
  have buy: "o_buyPool ?opp = uni_pool"
    by (simp add: calculateArbitrage_def await_def profitPercent_def bigint_div_def Let_def
          world_defs example_defs)
  have ne: "uni_pool \<noteq> sushi_pool"
    by (simp add: world_defs example_defs)
  have s: "0 \<le> maxSlippage (cfg_of 0.5 default_slippage True)"
    "maxSlippage (cfg_of 0.5 default_slippage True) \<le> 1"
    by (simp_all add: cfg_of_def default_slippage_value)
  have q1: "w_getQuote second_leg_fails (p_protocol uni_pool) usdc usdt (10 ^ t_decimals usdc)
              uni_pool = Inr 1010000"
    by (simp add: world_defs example_defs)
  have q2: "w_getQuote second_leg_fails (p_protocol sushi_pool) usdt usdc 1010000 sushi_pool
              = Inr 1010000"
    by (simp add: world_defs example_defs)
  have k: "slippage_thousandths (maxSlippage (cfg_of 0.5 default_slippage True)) = 980"
    by (simp add: cfg_of_def default_slippage_thousandths)
  from scanner_min_out [OF res ne buy s q1 q2]
  show ?thesis unfolding k by simp
qed

text \<open>
  With a slippage of 0.0005 and a quote of 1010000 for the first leg, the product
  \<open>quote * (1 - maxSlippage)\<close> is above 1009494, and the leg's minimum output is 1008990.
\<close>

theorem scanner_min_out_truncated:
  "w_getQuote second_leg_fails (p_protocol uni_pool) usdc usdt (10 ^ t_decimals usdc) uni_pool
     = Inr 1010000
   \<and> map_option (map s_amountOutMin \<circ> o_executionPath)
       (calculateArbitrage (cfg_of 0.5 tight_slippage True) 2000 second_leg_fails
          usdc usdt uni_pool sushi_pool)
     = Some [1008990, 1008990]
   \<and> real_of_int 1008990 + 504
       < real_of_int 1010000 * (1 - maxSlippage (cfg_of 0.5 tight_slippage True))"
proof -
  have "w_getQuote second_leg_fails (p_protocol uni_pool) usdc usdt (10 ^ t_decimals usdc)
          uni_pool = Inr 1010000"
    by (simp add: world_defs example_defs)
  moreover have "map_option (map s_amountOutMin \<circ> o_executionPath)
       (calculateArbitrage (cfg_of 0.5 tight_slippage True) 2000 second_leg_fails
          usdc usdt uni_pool sushi_pool)
     = Some [1008990, 1008990]"
    by (simp add: calculateArbitrage_def await_def profitPercent_def bigint_div_def Let_def
          calculateMinAmount_def tight_slippage_thousandths world_defs example_defs)
  moreover have "real_of_int 1008990 + 504
       < real_of_int 1010000 * (1 - maxSlippage (cfg_of 0.5 tight_slippage True))"
    by (simp add: cfg_of_def tight_slippage_value)
  ultimately show ?thesis by simp
qed

text \<open>
  When the other direction is the profitable one (here pool A is the venue that pays
  nothing extra, pool B the one that pays 1% more), the legs run on pool B and then on
  pool A, but their minimum outputs are still taken from the quotes of the direction
  A then B: the first leg, whose own quote is 1010000, gets 980000.
\<close>

lemma reverse_direction_min_out:
  "w_getQuote second_leg_fails (p_protocol uni_pool) usdc usdt (10 ^ t_decimals usdc) uni_pool
     = Inr 1010000
   \<and> map_option (map s_pool \<circ> o_executionPath)
       (calculateArbitrage (cfg_of 0.5 default_slippage True) 2000 second_leg_fails
          usdc usdt sushi_pool uni_pool)
     = Some [uni_pool, sushi_pool]
   \<and> map_option (map s_amountOutMin \<circ> o_executionPath)
       (calculateArbitrage (cfg_of 0.5 default_slippage True) 2000 second_leg_fails
          usdc usdt sushi_pool uni_pool)
     = Some [980000, 980000]"
  by (simp add: calculateArbitrage_def await_def profitPercent_def bigint_div_def Let_def
        calculateMinAmount_def default_slippage_thousandths world_defs example_defs)

subsection \<open>C8: a failed quote of the Uniswap V3 client\<close>

text \<open>
  C8. \<open>UniswapV3Protocol.getQuote\<close> returns a string for every input and every answer of
  the node, never a thrown value. When building the quoter contract or the quoting call
  fails, the string is \<open>'0'\<close>, which is also what a quote of zero gives.
\<close>

theorem v3_getQuote_never_throws:
  "(\<exists>s. UniswapV3Protocol_getQuote node tokenIn tokenOut amountIn pool = Inr s)
   \<and> (v3_quoterContract node = Inl e
        \<or> v3_quoteExactInputSingle node (t_address tokenIn) (t_address tokenOut)
             \<lfloor>p_fee pool * 1000000 + 1 / 2\<rfloor> amountIn 0 = Inl e
      \<longrightarrow> UniswapV3Protocol_getQuote node tokenIn tokenOut amountIn pool = Inr ''0'')
   \<and> (v3_quoteExactInputSingle node (t_address tokenIn) (t_address tokenOut)
         \<lfloor>p_fee pool * 1000000 + 1 / 2\<rfloor> amountIn 0 = Inr 0
      \<longrightarrow> UniswapV3Protocol_getQuote node tokenIn tokenOut amountIn pool = Inr ''0'')"
  using v3_getQuote_total [of node tokenIn tokenOut amountIn pool]
    v3_getQuote_contract_failure [of node e tokenIn tokenOut amountIn pool]
    v3_getQuote_call_failure [of node tokenIn tokenOut pool amountIn e]
    v3_getQuote_zero [of node tokenIn tokenOut pool amountIn]
  by blast

theorem v3_getQuote_never_throws_witness:
  "UniswapV3Protocol_getQuote failing_node usdc usdt 1000000 uni_pool = Inr ''0''
   \<and> UniswapV3Protocol_getQuote empty_node usdc usdt 1000000 uni_pool = Inr ''0''"
proof -
  have f: "v3_quoterContract failing_node = Inl (Collaborator ''execution reverted'')
        \<or> v3_quoteExactInputSingle failing_node (t_address usdc) (t_address usdt)
             \<lfloor>p_fee uni_pool * 1000000 + 1 / 2\<rfloor> 1000000 0
            = Inl (Collaborator ''execution reverted'')"
    by (simp add: failing_node_def)
  have z: "v3_quoteExactInputSingle empty_node (t_address usdc) (t_address usdt)
             \<lfloor>p_fee uni_pool * 1000000 + 1 / 2\<rfloor> 1000000 0 = Inr 0"
    by (simp add: empty_node_def)
  from v3_getQuote_never_throws
         [of failing_node usdc usdt 1000000 uni_pool "Collaborator ''execution reverted''"] f
    v3_getQuote_never_throws
         [of empty_node usdc usdt 1000000 uni_pool "Collaborator ''execution reverted''"] z
  show ?thesis by blast
qed

subsection \<open>C9: the confidence heuristic\<close>

text \<open>
  C9. For every pair of pools and every profit percentage, \<open>calculateConfidence\<close> returns
  a value between 0 and 1, both included.
\<close>

theorem calculateConfidence_range:
  "0 \<le> calculateConfidence buyPool sellPool profitPercentage
   \<and> calculateConfidence buyPool sellPool profitPercentage \<le> 1"
  by (simp add: calculateConfidence_def Let_def)

theorem calculateConfidence_range_witness:
  "0 \<le> calculateConfidence uni_pool sushi_pool 1 \<and> calculateConfidence uni_pool sushi_pool 1 \<le> 1"
  by (rule calculateConfidence_range)

subsection \<open>C10: scores at the low end\<close>

text \<open>
  C10, as the code has it. The risk score is not clamped at zero: a stablecoin pair on one
  trusted venue with deep pools, a profit of 0.5 and a confident AI annotation scores
  below zero. Every score of at most 20, negative ones included, is reported as \<open>LOW\<close>;
  every score of at most 15, negative ones included, keeps the full position size; every
  score from 16 to 20 is \<open>LOW\<close> with the position size reduced to 85% of the input
  amount (in integer arithmetic).
\<close>

theorem low_band:
  "riskScoreOf (cfg_of 0.5 0.02 True) 2000 (new_RiskManager 1500) (stable_opp 0.5)
       (Some confident_ai) < 0
   \<and> (riskScoreOf cfg now rm opp ai \<le> 20
        \<longrightarrow> ra_riskLevel (fst (assessRisk cfg now rm opp ai)) = LOW)
   \<and> (riskScoreOf cfg now rm opp ai \<le> 15
        \<longrightarrow> ra_adjustedPositionSize (fst (assessRisk cfg now rm opp ai)) = o_inputAmount opp)
   \<and> (15 < riskScoreOf cfg' now' rm' opp' ai' \<and> riskScoreOf cfg' now' rm' opp' ai' \<le> 20
        \<longrightarrow> ra_riskLevel (fst (assessRisk cfg' now' rm' opp' ai')) = LOW
            \<and> ra_adjustedPositionSize (fst (assessRisk cfg' now' rm' opp' ai'))
                = bigint_div (o_inputAmount opp' * 85) 100)"
proof -
  have "riskScoreOf (cfg_of 0.5 0.02 True) 2000 (new_RiskManager 1500) (stable_opp 0.5)
          (Some confident_ai) = - 10"
    by (simp add: risk_defs example_defs Let_def)
  moreover have "riskScoreOf cfg now rm opp ai \<le> 20
                   \<longrightarrow> ra_riskLevel (fst (assessRisk cfg now rm opp ai)) = LOW"
    by (simp add: assessRisk_level riskLevelOf_def)
  moreover have "riskScoreOf cfg now rm opp ai \<le> 15 \<longrightarrow>
         ra_adjustedPositionSize (fst (assessRisk cfg now rm opp ai)) = o_inputAmount opp"
    by (simp add: assessRisk_size calculateAdjustedPositionSize_def sizeMultiplier_def
          bigint_div_100)
  moreover have "15 < riskScoreOf cfg' now' rm' opp' ai' \<and> riskScoreOf cfg' now' rm' opp' ai' \<le> 20
        \<longrightarrow> ra_riskLevel (fst (assessRisk cfg' now' rm' opp' ai')) = LOW
            \<and> ra_adjustedPositionSize (fst (assessRisk cfg' now' rm' opp' ai'))
                = bigint_div (o_inputAmount opp' * 85) 100"
    by (simp add: assessRisk_level riskLevelOf_def assessRisk_size sizeMultiplier_band)
  ultimately show ?thesis by simp
qed

text \<open>
  The pair that scores -10 is \<open>LOW\<close> at full size; the pair that scores 20 is \<open>LOW\<close>
  at 850000 of 1000000.
\<close>

theorem low_band_witness:
  "ra_riskLevel (fst (assessRisk (cfg_of 0.5 0.02 True) 2000 (new_RiskManager 1500)
                        (stable_opp 0.5) (Some confident_ai))) = LOW
   \<and> ra_adjustedPositionSize (fst (assessRisk (cfg_of 0.5 0.02 True) 2000 (new_RiskManager 1500)
                                     (stable_opp 0.5) (Some confident_ai)))
       = o_inputAmount (stable_opp 0.5)
   \<and> ra_riskLevel (fst (assessRisk (cfg_of 0.5 0.02 True) 2000 (new_RiskManager 1500)
                          (stable_opp 0.05) None)) = LOW
   \<and> ra_adjustedPositionSize (fst (assessRisk (cfg_of 0.5 0.02 True) 2000 (new_RiskManager 1500)
                                     (stable_opp 0.05) None))
       = bigint_div (o_inputAmount (stable_opp 0.05) * 85) 100"
proof -
  have s: "riskScoreOf (cfg_of 0.5 0.02 True) 2000 (new_RiskManager 1500) (stable_opp 0.5)
             (Some confident_ai) = - 10"
    by (simp add: risk_defs example_defs Let_def)
  have s': "riskScoreOf (cfg_of 0.5 0.02 True) 2000 (new_RiskManager 1500) (stable_opp 0.05)
             None = 20"
    by (simp add: risk_defs example_defs Let_def)
  from low_band [of "cfg_of 0.5 0.02 True" 2000 "new_RiskManager 1500" "stable_opp 0.5"
                    "Some confident_ai"
                    "cfg_of 0.5 0.02 True" 2000 "new_RiskManager 1500" "stable_opp 0.05" None]
    s s'
  show ?thesis by simp
qed

text \<open>
  A stablecoin pair with a profit of 0.05 scores 20: the level is \<open>LOW\<close>, and the
  adjusted position size is 85% of the input amount.
\<close>

theorem low_level_reduced_size:
  "riskScoreOf (cfg_of 0.5 0.02 True) 2000 (new_RiskManager 1500) (stable_opp 0.05) None = 20
   \<and> ra_riskLevel (fst (assessRisk (cfg_of 0.5 0.02 True) 2000 (new_RiskManager 1500)
                          (stable_opp 0.05) None)) = LOW
   \<and> o_inputAmount (stable_opp 0.05) = 1000000
   \<and> ra_adjustedPositionSize (fst (assessRisk (cfg_of 0.5 0.02 True) 2000 (new_RiskManager 1500)
                                     (stable_opp 0.05) None)) = 850000"
  by (simp add: risk_defs example_defs Let_def)

end
